theory Spec2Isabelle
  imports Main "HOL-Library.AList" "HOL-Library.Word"
begin

section \<open>JavaScript values carried by event payloads\<close>

text \<open>
  \<^verbatim>\<open>server/index.js\<close> holds two revisions of the server; the later one, which adds
  run-code and the process supervisor and is otherwise the same, is the one modelled.
  The server receives JSON payloads over socket.io. A field of a
  payload is one of the primitive JSON values or is missing (\<open>JUndefined\<close>). Numbers are
  the 32-bit integers, which JavaScript prints in decimal; objects and arrays are outside
  the model. A string of a payload is held as its UTF-8 bytes, and a Buffer of the
  process supervisor further down is its bytes.
\<close>

datatype jsval = JUndefined | JNull | JBool bool | JNum "32 word" | JStr string

text \<open>The truthiness test behind \<^verbatim>\<open>!x\<close>, \<^verbatim>\<open>if (x)\<close> and \<^verbatim>\<open>x || y\<close>.\<close>

fun truthy :: "jsval \<Rightarrow> bool" where
  "truthy JUndefined = False"
| "truthy JNull = False"
| "truthy (JBool b) = b"
| "truthy (JNum n) = (n \<noteq> 0)"
| "truthy (JStr s) = (s \<noteq> [])"

text \<open>Decimal digits of a number, most significant first.\<close>

fun decimal :: "nat \<Rightarrow> string" where
  "decimal n = (if 10 \<le> n then decimal (n div 10) else []) @ [char_of (n mod 10 + 48)]"

text \<open>The string a value turns into inside a template literal.\<close>

fun to_String :: "jsval \<Rightarrow> string" where
  "to_String JUndefined = ''undefined''"
| "to_String JNull = ''null''"
| "to_String (JBool b) = (if b then ''true'' else ''false'')"
| "to_String (JNum n) =
     (if sint n < 0 then ''-'' @ decimal (nat (- sint n)) else decimal (nat (sint n)))"
| "to_String (JStr s) = s"

text \<open>
  \<^verbatim>\<open>String.prototype.trim\<close> strips white space and line terminators from both ends. On the
  UTF-8 bytes of a string these are the one-byte characters tab, line feed, vertical
  tab, form feed, carriage return and space, the two bytes of U+00A0, and the three
  bytes of U+1680, U+2000 to U+200A, U+2028, U+2029, U+202F, U+205F, U+3000 and U+FEFF.
\<close>

definition ws1 :: "char \<Rightarrow> bool" where
  "ws1 a = (a \<in> set [CHR 0x09, CHR 0x0A, CHR 0x0B, CHR 0x0C, CHR 0x0D, CHR 0x20])"

definition ws2 :: "char \<Rightarrow> char \<Rightarrow> bool" where
  "ws2 a b = (a = CHR 0xC2 \<and> b = CHR 0xA0)"

definition ws3 :: "char \<Rightarrow> char \<Rightarrow> char \<Rightarrow> bool" where
  "ws3 a b c =
     (a = CHR 0xE1 \<and> b = CHR 0x9A \<and> c = CHR 0x80 \<or>
      a = CHR 0xE2 \<and> b = CHR 0x80 \<and>
        (0x80 \<le> (of_char c :: nat) \<and> (of_char c :: nat) \<le> 0x8A \<or>
         c = CHR 0xA8 \<or> c = CHR 0xA9 \<or> c = CHR 0xAF) \<or>
      a = CHR 0xE2 \<and> b = CHR 0x81 \<and> c = CHR 0x9F \<or>
      a = CHR 0xE3 \<and> b = CHR 0x80 \<and> c = CHR 0x80 \<or>
      a = CHR 0xEF \<and> b = CHR 0xBB \<and> c = CHR 0xBF)"

fun trimStart :: "string \<Rightarrow> string" where
  "trimStart (a # b # c # s) =
     (if ws1 a then trimStart (b # c # s)
      else if ws2 a b then trimStart (c # s)
      else if ws3 a b c then trimStart s
      else a # b # c # s)"
| "trimStart [a, b] =
     (if ws1 a then trimStart [b] else if ws2 a b then [] else [a, b])"
| "trimStart [a] = (if ws1 a then [] else [a])"
| "trimStart [] = []"

text \<open>The same from the end, on the reversed string: the bytes of a character come last first.\<close>

fun trimEnd_rev :: "string \<Rightarrow> string" where
  "trimEnd_rev (c # b # a # s) =
     (if ws1 c then trimEnd_rev (b # a # s)
      else if ws2 b c then trimEnd_rev (a # s)
      else if ws3 a b c then trimEnd_rev s
      else c # b # a # s)"
| "trimEnd_rev [c, b] =
     (if ws1 c then trimEnd_rev [b] else if ws2 b c then [] else [c, b])"
| "trimEnd_rev [c] = (if ws1 c then [] else [c])"
| "trimEnd_rev [] = []"

definition trim :: "string \<Rightarrow> string" where
  "trim s = rev (trimEnd_rev (rev (trimStart s)))"

text \<open>
  A string that JavaScript decodes from a Buffer is a list of UTF-16 code units, so that
  \<open>length\<close> is its \<^verbatim>\<open>length\<close>. \<open>ascii\<close> gives the code units of a string literal of the
  source, whose characters are all ASCII.
\<close>

type_synonym utf16 = "nat list"

definition ascii :: "string \<Rightarrow> utf16" where
  "ascii s = map of_char s"

text \<open>
  \<^verbatim>\<open>buffer.toString('utf8')\<close>. A well-formed sequence of one to four bytes gives its code
  point, as one code unit or as a surrogate pair. A byte that cannot start a sequence,
  and a sequence cut short by a byte that cannot continue it or by the end of the
  Buffer, give U+FFFD; the byte that cut a sequence short is read again as a first byte.
  \<open>Await c n lo hi\<close>: the code point so far is \<open>c\<close>, \<open>n\<close> more bytes are needed, and the
  next one must lie between \<open>lo\<close> and \<open>hi\<close>.
\<close>

datatype pending = Idle | Await nat nat nat nat

definition units :: "nat \<Rightarrow> utf16" where
  "units c =
     (if c < 0x10000 then [c]
      else [0xD800 + (c - 0x10000) div 0x400, 0xDC00 + (c - 0x10000) mod 0x400])"

definition lead :: "nat \<Rightarrow> utf16 \<times> pending" where
  "lead b =
     (if b \<le> 0x7F then ([b], Idle)
      else if 0xC2 \<le> b \<and> b \<le> 0xDF then ([], Await (b mod 32) 1 0x80 0xBF)
      else if 0xE0 \<le> b \<and> b \<le> 0xEF
      then ([], Await (b mod 16) 2 (if b = 0xE0 then 0xA0 else 0x80)
                                   (if b = 0xED then 0x9F else 0xBF))
      else if 0xF0 \<le> b \<and> b \<le> 0xF4
      then ([], Await (b mod 8) 3 (if b = 0xF0 then 0x90 else 0x80)
                                  (if b = 0xF4 then 0x8F else 0xBF))
      else ([0xFFFD], Idle))"

fun decode :: "pending \<Rightarrow> nat list \<Rightarrow> utf16" where
  "decode Idle [] = []"
| "decode (Await c n lo hi) [] = [0xFFFD]"
| "decode Idle (b # bs) = fst (lead b) @ decode (snd (lead b)) bs"
| "decode (Await c n lo hi) (b # bs) =
     (if lo \<le> b \<and> b \<le> hi
      then (if n = 1 then units (c * 64 + b mod 64) @ decode Idle bs
            else decode (Await (c * 64 + b mod 64) (n - 1) 0x80 0xBF) bs)
      else 0xFFFD # fst (lead b) @ decode (snd (lead b)) bs)"

definition toString_utf8 :: "string \<Rightarrow> utf16" where
  "toString_utf8 buf = decode Idle (map of_char buf)"

section \<open>Rooms, participants and the server state\<close>

type_synonym sid = string

record participant =
  pid :: sid
  username :: string
  joinedAt :: nat
  lastSeen :: nat

text \<open>
  A JavaScript \<^verbatim>\<open>Map\<close> keeps insertion order: it is an association list, read with
  \<open>map_of\<close>, written with \<open>AList.update\<close> (in place, or appended when the key is new) and
  \<open>AList.delete\<close>. Dates are milliseconds, one clock reading per handled event.
\<close>

record room =
  room_id :: jsval
  code :: jsval
  language :: jsval
  participants :: "(sid \<times> participant) list"
  createdAt :: nat
  lastActivity :: nat

text \<open>
  \<open>rooms\<close> and \<open>userSockets\<close> are the two module-level maps. \<open>socketRooms\<close> is socket.io's
  own bookkeeping: for every connected socket the set \<^verbatim>\<open>socket.rooms\<close> of channels it has
  joined, which always holds the socket's own id.
\<close>

record server =
  rooms :: "(jsval \<times> room) list"
  userSockets :: "(sid \<times> nat) list"
  socketRooms :: "(sid \<times> jsval list) list"

definition welcome_head :: string where
  "welcome_head =
     ''// Welcome to CodeSync - Real-time Collaborative Editor!\<newline>'' @
     ''// Share this room ID with others to collaborate: ''"

definition welcome_tail :: string where
  "welcome_tail =
     ''\<newline>\<newline>function fibonacci(n) {\<newline>'' @
     ''  if (n <= 1) return n;\<newline>'' @
     ''  return fibonacci(n - 1) + fibonacci(n - 2);\<newline>'' @
     ''}\<newline>\<newline>'' @
     ''// Try editing this code with multiple users!\<newline>'' @
     ''console.log('' @ [CHR 0x27] @ ''Fibonacci sequence:'' @ [CHR 0x27] @ '');\<newline>'' @
     ''for (let i = 0; i < 10; i++) {\<newline>'' @
     ''  console.log(`F(${i}) = ${fibonacci(i)}`);\<newline>'' @
     ''}\<newline>\<newline>'' @
     ''// Features:\<newline>'' @
     ''// '' @ [CHR 0xE2, CHR 0x9C, CHR 0xA8] @ '' Real-time collaboration\<newline>'' @
     ''// '' @ [CHR 0xF0, CHR 0x9F, CHR 0x8E, CHR 0xA8] @ '' Syntax highlighting\<newline>'' @
     ''// '' @ [CHR 0xF0, CHR 0x9F, CHR 0x94, CHR 0x84] @ '' Auto-save\<newline>'' @
     ''// '' @ [CHR 0xF0, CHR 0x9F, CHR 0x91, CHR 0xA5] @ '' Live user presence\<newline>'' @
     ''// '' @ [CHR 0xF0, CHR 0x9F, CHR 0x9A, CHR 0x80] @ '' Multiple language support''"

definition getOrCreateRoom :: "server \<Rightarrow> jsval \<Rightarrow> nat \<Rightarrow> server \<times> room" where
  "getOrCreateRoom st roomId now =
     (case map_of (rooms st) roomId of
        Some r \<Rightarrow> (st, r)
      | None \<Rightarrow>
          (let r = \<lparr>room_id = roomId,
                    code = JStr (welcome_head @ to_String roomId @ welcome_tail),
                    language = JStr ''javascript'',
                    participants = [],
                    createdAt = now,
                    lastActivity = now\<rparr>
           in (st\<lparr>rooms := rooms st @ [(roomId, r)]\<rparr>, r)))"

definition maxAge :: int where
  "maxAge = 24 * 60 * 60 * 1000"

definition cleanupInactiveRooms :: "server \<Rightarrow> nat \<Rightarrow> server" where
  "cleanupInactiveRooms st now =
     st\<lparr>rooms := filter (\<lambda>(roomId, r).
            \<not> (participants r = [] \<and> int now - int (lastActivity r) > maxAge)) (rooms st)\<rparr>"

section \<open>The socket handlers\<close>

record run_result =
  rr_roomId :: jsval
  rr_language :: jsval
  rr_startedAt :: nat
  rr_durationMs :: int
  rr_exitCode :: "int option"
  rr_stdout :: utf16
  rr_stderr :: utf16
  rr_timedOut :: bool
  rr_outputTruncated :: bool
  rr_initiatedBy :: string

datatype out_event =
    ErrorMsg string
  | RoomState jsval jsval "participant list"
  | UserJoined participant "participant list"
  | UserLeft participant "participant list"
  | CodeUpdate jsval jsval string
  | LanguageUpdate jsval string
  | RunResult run_result
  | Pong

text \<open>A handler returns the new state and the events it sends, each with its recipient.\<close>

type_synonym deliveries = "(sid \<times> out_event) list"

definition rooms_of :: "server \<Rightarrow> sid \<Rightarrow> jsval list" where
  "rooms_of st s = (case map_of (socketRooms st) s of None \<Rightarrow> [] | Some rs \<Rightarrow> rs)"

text \<open>\<^verbatim>\<open>io.to(roomId)\<close>: every socket that has joined the channel.\<close>

definition io_to :: "server \<Rightarrow> jsval \<Rightarrow> sid list" where
  "io_to st roomId = filter (\<lambda>s. roomId \<in> set (rooms_of st s)) (map fst (socketRooms st))"

text \<open>\<^verbatim>\<open>socket.to(roomId)\<close>: the same, without the sending socket.\<close>

definition socket_to :: "server \<Rightarrow> sid \<Rightarrow> jsval \<Rightarrow> sid list" where
  "socket_to st sock roomId = filter (\<lambda>s. s \<noteq> sock) (io_to st roomId)"

definition connection :: "server \<Rightarrow> sid \<Rightarrow> nat \<Rightarrow> server" where
  "connection st sock now =
     st\<lparr>userSockets := AList.update sock now (userSockets st),
        socketRooms := AList.update sock [JStr sock] (socketRooms st)\<rparr>"

record join_data =
  jd_roomId :: jsval
  jd_username :: jsval

text \<open>
  A payload that is itself missing is \<open>None\<close>: destructuring it throws, and the handler's
  \<^verbatim>\<open>catch\<close> answers with its generic error. So does \<^verbatim>\<open>username.trim()\<close> on a truthy
  username that is not a string, after the room was looked up or created and the channel
  joined.
\<close>

definition join_room :: "server \<Rightarrow> sid \<Rightarrow> nat \<Rightarrow> join_data option \<Rightarrow> server \<times> deliveries" where
  "join_room st sock now data =
     (case data of
        None \<Rightarrow> (st, [(sock, ErrorMsg ''Failed to join room'')])
      | Some d \<Rightarrow>
          if \<not> truthy (jd_roomId d) \<or> \<not> truthy (jd_username d)
          then (st, [(sock, ErrorMsg ''Room ID and username are required'')])
          else
            (let roomId = jd_roomId d;
                 (st1, r) = getOrCreateRoom st roomId now;
                 kept = filter (\<lambda>c. c = JStr sock) (rooms_of st1 sock);
                 joined = (if roomId \<in> set kept then kept else kept @ [roomId]);
                 st2 = st1\<lparr>socketRooms := AList.update sock joined (socketRooms st1)\<rparr>
             in case jd_username d of
                  JStr u \<Rightarrow>
                    (let p = \<lparr>pid = sock, username = trim u, joinedAt = now, lastSeen = now\<rparr>;
                         r' = r\<lparr>participants := AList.update sock p (participants r),
                                lastActivity := now\<rparr>;
                         st3 = st2\<lparr>rooms := AList.update roomId r' (rooms st2)\<rparr>;
                         everyone = map snd (participants r')
                     in (st3,
                         (sock, RoomState (code r') (language r') everyone) #
                         map (\<lambda>s. (s, UserJoined p everyone)) (socket_to st3 sock roomId)))
                | _ \<Rightarrow> (st2, [(sock, ErrorMsg ''Failed to join room'')])))"

record code_data =
  cd_roomId :: jsval
  cd_code :: jsval
  cd_language :: jsval

text \<open>\<^verbatim>\<open>participant?.username || 'Unknown'\<close>\<close>

definition name_or_unknown :: "participant option \<Rightarrow> string" where
  "name_or_unknown p =
     (case p of None \<Rightarrow> ''Unknown''
      | Some q \<Rightarrow> if username q = [] then ''Unknown'' else username q)"

definition code_change :: "server \<Rightarrow> sid \<Rightarrow> nat \<Rightarrow> code_data option \<Rightarrow> server \<times> deliveries" where
  "code_change st sock now data =
     (case data of
        None \<Rightarrow> (st, [(sock, ErrorMsg ''Failed to update code'')])
      | Some d \<Rightarrow>
          (case map_of (rooms st) (cd_roomId d) of
             None \<Rightarrow> (st, [(sock, ErrorMsg ''Room not found'')])
           | Some r \<Rightarrow>
               (let r1 = (if cd_code d \<noteq> JUndefined then r\<lparr>code := cd_code d\<rparr> else r);
                    r2 = (if truthy (cd_language d) then r1\<lparr>language := cd_language d\<rparr> else r1);
                    r3 = r2\<lparr>lastActivity := now\<rparr>;
                    p = map_of (participants r3) sock;
                    r4 = (case p of None \<Rightarrow> r3
                          | Some q \<Rightarrow> r3\<lparr>participants :=
                              AList.update sock (q\<lparr>lastSeen := now\<rparr>) (participants r3)\<rparr>);
                    st' = st\<lparr>rooms := AList.update (cd_roomId d) r4 (rooms st)\<rparr>
                in (st',
                    map (\<lambda>s. (s, CodeUpdate (code r4) (language r4) (name_or_unknown p)))
                        (socket_to st' sock (cd_roomId d))))))"

record language_data =
  ld_roomId :: jsval
  ld_language :: jsval

definition language_change ::
  "server \<Rightarrow> sid \<Rightarrow> nat \<Rightarrow> language_data option \<Rightarrow> server \<times> deliveries" where
  "language_change st sock now data =
     (case data of
        None \<Rightarrow> (st, [(sock, ErrorMsg ''Failed to update language'')])
      | Some d \<Rightarrow>
          (case map_of (rooms st) (ld_roomId d) of
             None \<Rightarrow> (st, [(sock, ErrorMsg ''Room not found'')])
           | Some r \<Rightarrow>
               (let r' = r\<lparr>language := ld_language d, lastActivity := now\<rparr>;
                    p = map_of (participants r') sock;
                    st' = st\<lparr>rooms := AList.update (ld_roomId d) r' (rooms st)\<rparr>
                in (st',
                    map (\<lambda>s. (s, LanguageUpdate (ld_language d) (name_or_unknown p)))
                        (socket_to st' sock (ld_roomId d))))))"

text \<open>
  The \<^verbatim>\<open>rooms.forEach\<close> of the disconnect handler: in every room that holds the socket, the
  record is deleted, the rest of the channel is told, and a room left empty is deleted.
  \<open>dest\<close> is \<^verbatim>\<open>socket.to\<close>.
\<close>

fun remove_from_rooms ::
  "(jsval \<Rightarrow> sid list) \<Rightarrow> sid \<Rightarrow> nat \<Rightarrow> (jsval \<times> room) list \<Rightarrow> (jsval \<times> room) list \<times> deliveries"
where
  "remove_from_rooms dest sock now [] = ([], [])"
| "remove_from_rooms dest sock now ((roomId, r) # rest) =
     (let (rest', evs) = remove_from_rooms dest sock now rest
      in case map_of (participants r) sock of
           None \<Rightarrow> ((roomId, r) # rest', evs)
         | Some p \<Rightarrow>
             (let r' = r\<lparr>participants := AList.delete sock (participants r),
                         lastActivity := now\<rparr>;
                  ev = map (\<lambda>s. (s, UserLeft p (map snd (participants r')))) (dest roomId)
              in (if participants r' = [] then rest' else (roomId, r') # rest', ev @ evs)))"

text \<open>
  socket.io has taken the socket out of every channel by the time \<^verbatim>\<open>'disconnect'\<close> is
  emitted.
\<close>

definition disconnect :: "server \<Rightarrow> sid \<Rightarrow> nat \<Rightarrow> server \<times> deliveries" where
  "disconnect st sock now =
     (let st1 = st\<lparr>socketRooms := AList.delete sock (socketRooms st),
                   userSockets := AList.delete sock (userSockets st)\<rparr>;
          (rs, evs) = remove_from_rooms (socket_to st1 sock) sock now (rooms st1)
      in (st1\<lparr>rooms := rs\<rparr>, evs))"

definition ping :: "server \<Rightarrow> sid \<Rightarrow> server \<times> deliveries" where
  "ping st sock = (st, [(sock, Pong)])"

section \<open>The process supervisor\<close>

definition EXECUTION_TIMEOUT_MS :: nat where
  "EXECUTION_TIMEOUT_MS = 5000"

definition MAX_OUTPUT_BYTES :: nat where
  "MAX_OUTPUT_BYTES = 64 * 1024"

text \<open>
  The object \<^verbatim>\<open>limitedSpawn\<close> resolves with, its two streams decoded (\<open>result\<close>); the
  adapters' hand-made results leave \<open>signal\<close> and \<open>spawnError\<close> unset. The same fields with
  Buffers for the streams are the variables of one \<^verbatim>\<open>limitedSpawn\<close> call.
\<close>

record 'a payload =
  exitCode :: "int option"
  signal :: "string option"
  stdout :: 'a
  stderr :: 'a
  timedOut :: bool
  outputTruncated :: bool
  spawnError :: "string option"

type_synonym result = "utf16 payload"

text \<open>
  The variables of one \<^verbatim>\<open>limitedSpawn\<close> call while the child runs: the captured output,
  the flags, and \<^verbatim>\<open>child.killed\<close>, true once SIGKILL has been sent. \<open>exitCode\<close> and \<open>signal\<close>
  are filled in by \<^verbatim>\<open>'close'\<close>.
\<close>

record supervisor = "string payload" +
  killed :: bool

definition spawn_state :: supervisor where
  "spawn_state = \<lparr>exitCode = None, signal = None, stdout = [], stderr = [],
                   timedOut = False, outputTruncated = False, spawnError = None,
                   killed = False\<rparr>"

definition killChild :: "supervisor \<Rightarrow> supervisor" where
  "killChild s = (if \<not> killed s then s\<lparr>killed := True\<rparr> else s)"

definition on_timeout :: "supervisor \<Rightarrow> supervisor" where
  "on_timeout s = killChild (s\<lparr>timedOut := True\<rparr>)"

definition on_stdout :: "string \<Rightarrow> supervisor \<Rightarrow> supervisor" where
  "on_stdout chunk s =
     (if length (stdout s) + length chunk > MAX_OUTPUT_BYTES
      then (let remaining = nat (max 0 (int MAX_OUTPUT_BYTES - int (length (stdout s))))
            in killChild (s\<lparr>stdout := stdout s @ take remaining chunk,
                             outputTruncated := True\<rparr>))
      else s\<lparr>stdout := stdout s @ chunk\<rparr>)"

definition on_stderr :: "string \<Rightarrow> supervisor \<Rightarrow> supervisor" where
  "on_stderr chunk s =
     (if length (stderr s) + length chunk > MAX_OUTPUT_BYTES
      then (let remaining = nat (max 0 (int MAX_OUTPUT_BYTES - int (length (stderr s))))
            in killChild (s\<lparr>stderr := stderr s @ take remaining chunk,
                             outputTruncated := True\<rparr>))
      else s\<lparr>stderr := stderr s @ chunk\<rparr>)"

text \<open>
  What the child process sends to the event loop. An \<^verbatim>\<open>'error'\<close> carries the error's
  \<^verbatim>\<open>code\<close>, if it has one, and its text.
\<close>

datatype child_event =
    StdoutData string
  | StderrData string
  | ErrorEv "string option" string
  | Close "int option" "string option"

definition on_error :: "string option \<Rightarrow> string \<Rightarrow> supervisor \<Rightarrow> supervisor" where
  "on_error err_code text s =
     s\<lparr>spawnError := Some (case err_code of
                             Some c \<Rightarrow> if c \<noteq> [] then c else text
                           | None \<Rightarrow> text)\<rparr>"

text \<open>
  A child is the list of its events, each with the time in milliseconds since the spawn
  at which the event loop handles it. The callback of \<^verbatim>\<open>setTimeout\<close> runs once, ahead of
  the first event handled at \<open>EXECUTION_TIMEOUT_MS\<close> or later (\<open>timer\<close>); \<^verbatim>\<open>'close'\<close> clears
  the timer and ends the run with the state the payload is built from. A child whose \<^verbatim>\<open>'close'\<close>
  never comes leaves the promise pending: \<open>supervise\<close> gives \<open>None\<close>.
\<close>

type_synonym child = "(nat \<times> child_event) list"

definition timer :: "nat \<Rightarrow> supervisor \<Rightarrow> supervisor" where
  "timer t s = (if EXECUTION_TIMEOUT_MS \<le> t \<and> \<not> timedOut s then on_timeout s else s)"

text \<open>\<open>closed\<close>: the child's \<^verbatim>\<open>'close'\<close> is among its events.\<close>

fun closed :: "child \<Rightarrow> bool" where
  "closed [] = False"
| "closed ((t, Close c sg) # es) = True"
| "closed (e # es) = closed es"

text \<open>
  \<open>running s ch\<close>: the variables after the events of \<open>ch\<close> have been handled, one after the
  other, each after the timer callback if that is due; \<^verbatim>\<open>'close'\<close> is the last event
  handled. The promise resolves in the \<^verbatim>\<open>'close'\<close> handler and nowhere else.
\<close>

fun running :: "supervisor \<Rightarrow> child \<Rightarrow> supervisor" where
  "running s [] = s"
| "running s ((t, StdoutData chunk) # es) = running (on_stdout chunk (timer t s)) es"
| "running s ((t, StderrData chunk) # es) = running (on_stderr chunk (timer t s)) es"
| "running s ((t, ErrorEv c msg) # es) = running (on_error c msg (timer t s)) es"
| "running s ((t, Close c sg) # es) = (timer t s)\<lparr>exitCode := c, signal := sg\<rparr>"

definition supervise :: "supervisor \<Rightarrow> child \<Rightarrow> supervisor option" where
  "supervise s ch = (if closed ch then Some (running s ch) else None)"

text \<open>
  The temporary directory of a request is there or not (\<open>True\<close>: it exists). A cleanup
  step takes that to the new state, or fails (\<open>None\<close>); \<^verbatim>\<open>done\<close> swallows the failure.
\<close>

type_synonym cleanup = "bool \<Rightarrow> bool option"

definition done_cleanup :: "cleanup option \<Rightarrow> bool \<Rightarrow> bool" where
  "done_cleanup cl dir =
     (case cl of
        None \<Rightarrow> dir
      | Some f \<Rightarrow> (case f dir of None \<Rightarrow> dir | Some dir' \<Rightarrow> dir'))"

text \<open>The object literal that the \<^verbatim>\<open>'close'\<close> handler passes to \<^verbatim>\<open>done\<close>.\<close>

definition payload_of :: "supervisor \<Rightarrow> result" where
  "payload_of s = \<lparr>exitCode = exitCode s, signal = signal s,
                   stdout = toString_utf8 (stdout s), stderr = toString_utf8 (stderr s),
                   timedOut = timedOut s, outputTruncated = outputTruncated s,
                   spawnError = spawnError s\<rparr>"

definition limitedSpawn :: "child \<Rightarrow> cleanup option \<Rightarrow> bool \<Rightarrow> result option \<times> bool" where
  "limitedSpawn ch cl dir =
     (case supervise spawn_state ch of
        None \<Rightarrow> (None, dir)
      | Some s \<Rightarrow> (Some (payload_of s), done_cleanup cl dir))"

section \<open>The language adapters\<close>

datatype cmd = Node | Python | Py | Javac | Java | Gpp | Clangpp | MainExe

text \<open>
  The host of one request: how each command behaves on the source text in the
  workspace, and whether the file system calls succeed.
\<close>

record host =
  proc :: "cmd \<Rightarrow> string \<Rightarrow> child"
  mkdtemp_ok :: bool
  writeFile_ok :: bool
  rm_ok :: bool

text \<open>
  Every adapter spawns with \<^verbatim>\<open>cwd: tempDir\<close>. In a directory that is gone the spawn fails
  with ENOENT whatever the command: Node emits \<^verbatim>\<open>'error'\<close> and then \<^verbatim>\<open>'close'\<close> with the
  negated error number.
\<close>

definition spawn_failed :: child where
  "spawn_failed = [(0, ErrorEv (Some ''ENOENT'') ''Error: spawn ENOENT''),
                   (0, Close (Some (- 2)) None)]"

definition spawn :: "host \<Rightarrow> cmd \<Rightarrow> string \<Rightarrow> bool \<Rightarrow> child" where
  "spawn h c src dir = (if dir then proc h c src else spawn_failed)"

text \<open>\<^verbatim>\<open>rm(tempDir, { recursive: true, force: true })\<close>\<close>

definition rm :: "host \<Rightarrow> cleanup" where
  "rm h dir = (if rm_ok h then Some False else None)"

datatype 'a promise = Resolved 'a | Rejected | Pending

text \<open>
  What an adapter leaves behind: its promise, whether the temporary directory still
  exists, and the commands it spawned, in order.
\<close>

record run =
  outcome :: "result promise"
  tempDir :: bool
  spawned :: "cmd list"

definition runJavaScript :: "host \<Rightarrow> string \<Rightarrow> run" where
  "runJavaScript h src =
     (if \<not> mkdtemp_ok h then \<lparr>outcome = Rejected, tempDir = False, spawned = []\<rparr>
      else if \<not> writeFile_ok h then \<lparr>outcome = Rejected, tempDir = True, spawned = []\<rparr>
      else case limitedSpawn (spawn h Node src True) (Some (rm h)) True of
             (None, dir) \<Rightarrow> \<lparr>outcome = Pending, tempDir = dir, spawned = [Node]\<rparr>
           | (Some res, dir) \<Rightarrow> \<lparr>outcome = Resolved res, tempDir = dir, spawned = [Node]\<rparr>)"

definition runPython :: "host \<Rightarrow> string \<Rightarrow> run" where
  "runPython h src =
     (if \<not> mkdtemp_ok h then \<lparr>outcome = Rejected, tempDir = False, spawned = []\<rparr>
      else if \<not> writeFile_ok h then \<lparr>outcome = Rejected, tempDir = True, spawned = []\<rparr>
      else case limitedSpawn (spawn h Python src True) (Some (rm h)) True of
             (None, dir) \<Rightarrow> \<lparr>outcome = Pending, tempDir = dir, spawned = [Python]\<rparr>
           | (Some res, dir) \<Rightarrow>
               if spawnError res = Some ''ENOENT''
               then (case limitedSpawn (spawn h Py src dir) (Some (rm h)) dir of
                       (None, dir') \<Rightarrow>
                         \<lparr>outcome = Pending, tempDir = dir', spawned = [Python, Py]\<rparr>
                     | (Some res', dir') \<Rightarrow>
                         \<lparr>outcome = Resolved res', tempDir = dir', spawned = [Python, Py]\<rparr>)
               else \<lparr>outcome = Resolved res, tempDir = dir, spawned = [Python]\<rparr>)"

definition javac_not_found :: result where
  "javac_not_found = \<lparr>exitCode = None, signal = None, stdout = [],
                       stderr = ascii ''javac not found. Install JDK.'',
                       timedOut = False, outputTruncated = False, spawnError = None\<rparr>"

definition java_not_found :: "result \<Rightarrow> result" where
  "java_not_found res =
     res\<lparr>stderr := stderr res @ (if stderr res \<noteq> [] then ascii ''\<newline>'' else []) @
                    ascii ''java not found. Install JRE/JDK.''\<rparr>"

definition runJava :: "host \<Rightarrow> string \<Rightarrow> run" where
  "runJava h src =
     (if \<not> mkdtemp_ok h then \<lparr>outcome = Rejected, tempDir = False, spawned = []\<rparr>
      else if \<not> writeFile_ok h then \<lparr>outcome = Rejected, tempDir = True, spawned = []\<rparr>
      else case limitedSpawn (spawn h Javac src True) None True of
             (None, dir) \<Rightarrow> \<lparr>outcome = Pending, tempDir = dir, spawned = [Javac]\<rparr>
           | (Some compile, dir) \<Rightarrow>
               if spawnError compile = Some ''ENOENT''
               then (case rm h dir of
                       None \<Rightarrow> \<lparr>outcome = Rejected, tempDir = dir, spawned = [Javac]\<rparr>
                     | Some dir' \<Rightarrow>
                         \<lparr>outcome = Resolved javac_not_found, tempDir = dir', spawned = [Javac]\<rparr>)
               else if exitCode compile \<noteq> Some 0
               then (case rm h dir of
                       None \<Rightarrow> \<lparr>outcome = Rejected, tempDir = dir, spawned = [Javac]\<rparr>
                     | Some dir' \<Rightarrow>
                         \<lparr>outcome = Resolved compile, tempDir = dir', spawned = [Javac]\<rparr>)
               else (case limitedSpawn (spawn h Java src dir) (Some (rm h)) dir of
                       (None, dir') \<Rightarrow>
                         \<lparr>outcome = Pending, tempDir = dir', spawned = [Javac, Java]\<rparr>
                     | (Some res, dir') \<Rightarrow>
                         \<lparr>outcome = Resolved (if spawnError res = Some ''ENOENT''
                                               then java_not_found res else res),
                          tempDir = dir', spawned = [Javac, Java]\<rparr>))"

definition cpp_not_found :: result where
  "cpp_not_found = \<lparr>exitCode = None, signal = None, stdout = [],
                     stderr = ascii ''C++ compiler not found (g++/clang++).'',
                     timedOut = False, outputTruncated = False, spawnError = None\<rparr>"

text \<open>The part of \<^verbatim>\<open>runCpp\<close> after the compiler, whichever it was, has given its result.\<close>

definition runCpp_compiled :: "host \<Rightarrow> string \<Rightarrow> cmd list \<Rightarrow> result \<Rightarrow> bool \<Rightarrow> run" where
  "runCpp_compiled h src cs compile dir =
     (if spawnError compile = Some ''ENOENT''
      then (case rm h dir of
              None \<Rightarrow> \<lparr>outcome = Rejected, tempDir = dir, spawned = cs\<rparr>
            | Some dir' \<Rightarrow> \<lparr>outcome = Resolved cpp_not_found, tempDir = dir', spawned = cs\<rparr>)
      else if exitCode compile \<noteq> Some 0
      then (case rm h dir of
              None \<Rightarrow> \<lparr>outcome = Rejected, tempDir = dir, spawned = cs\<rparr>
            | Some dir' \<Rightarrow> \<lparr>outcome = Resolved compile, tempDir = dir', spawned = cs\<rparr>)
      else (case limitedSpawn (spawn h MainExe src dir) (Some (rm h)) dir of
              (None, dir') \<Rightarrow> \<lparr>outcome = Pending, tempDir = dir', spawned = cs @ [MainExe]\<rparr>
            | (Some res, dir') \<Rightarrow>
                \<lparr>outcome = Resolved res, tempDir = dir', spawned = cs @ [MainExe]\<rparr>))"

definition runCpp :: "host \<Rightarrow> string \<Rightarrow> run" where
  "runCpp h src =
     (if \<not> mkdtemp_ok h then \<lparr>outcome = Rejected, tempDir = False, spawned = []\<rparr>
      else if \<not> writeFile_ok h then \<lparr>outcome = Rejected, tempDir = True, spawned = []\<rparr>
      else case limitedSpawn (spawn h Gpp src True) None True of
             (None, dir) \<Rightarrow> \<lparr>outcome = Pending, tempDir = dir, spawned = [Gpp]\<rparr>
           | (Some compile, dir) \<Rightarrow>
               if spawnError compile = Some ''ENOENT''
               then (case limitedSpawn (spawn h Clangpp src dir) None dir of
                       (None, dir') \<Rightarrow>
                         \<lparr>outcome = Pending, tempDir = dir', spawned = [Gpp, Clangpp]\<rparr>
                     | (Some compile', dir') \<Rightarrow>
                         runCpp_compiled h src [Gpp, Clangpp] compile' dir')
               else runCpp_compiled h src [Gpp] compile dir)"

section \<open>Running code in a room\<close>

record run_data =
  rd_roomId :: jsval
  rd_code :: jsval
  rd_language :: jsval

text \<open>The \<^verbatim>\<open>switch (language)\<close>; \<open>None\<close> is its \<^verbatim>\<open>default\<close>.\<close>

definition adapter :: "jsval \<Rightarrow> (host \<Rightarrow> string \<Rightarrow> run) option" where
  "adapter lang =
     (if lang = JStr ''javascript'' \<or> lang = JStr ''typescript'' then Some runJavaScript
      else if lang = JStr ''python'' then Some runPython
      else if lang = JStr ''java'' then Some runJava
      else if lang = JStr ''cpp'' then Some runCpp
      else None)"

definition unsupported :: "jsval \<Rightarrow> string" where
  "unsupported lang =
     ''Execution for language '' @ [CHR 0x22] @ to_String lang @ [CHR 0x22] @
     '' is not supported yet.''"

text \<open>
  The handler reads the registry of \<open>st\<close> when the request arrives, at time \<open>startedAt\<close>,
  and sends the result to the channel as it is in \<open>st'\<close>, the state when the adapter's
  promise settles, at time \<open>finishedAt\<close>. It changes neither. Beside the events it
  returns what the adapter left behind, if one ran.
\<close>

definition run_code ::
  "server \<Rightarrow> server \<Rightarrow> sid \<Rightarrow> nat \<Rightarrow> nat \<Rightarrow> host \<Rightarrow> run_data option \<Rightarrow> deliveries \<times> run option"
where
  "run_code st st' sock startedAt finishedAt h data =
     (let d = (case data of
                 None \<Rightarrow> \<lparr>rd_roomId = JUndefined, rd_code = JUndefined, rd_language = JUndefined\<rparr>
               | Some d \<Rightarrow> d);
          roomId = rd_roomId d;
          lang = rd_language d
      in case rd_code d of
           JStr src \<Rightarrow>
             if \<not> truthy roomId \<or> \<not> truthy lang
             then ([(sock, ErrorMsg ''Invalid run request'')], None)
             else
               (case map_of (rooms st) roomId of
                  None \<Rightarrow> ([(sock, ErrorMsg ''Room not found'')], None)
                | Some r \<Rightarrow>
                    (let initiatedBy = name_or_unknown (map_of (participants r) sock)
                     in case adapter lang of
                          None \<Rightarrow>
                            (map (\<lambda>s. (s, RunResult
                                   \<lparr>rr_roomId = roomId, rr_language = lang,
                                    rr_startedAt = startedAt, rr_durationMs = 0,
                                    rr_exitCode = None, rr_stdout = [],
                                    rr_stderr = toString_utf8 (unsupported lang),
                                    rr_timedOut = False, rr_outputTruncated = False,
                                    rr_initiatedBy = initiatedBy\<rparr>))
                                 (io_to st roomId), None)
                        | Some f \<Rightarrow>
                            (let x = f h src
                             in case outcome x of
                                  Resolved res \<Rightarrow>
                                    (map (\<lambda>s. (s, RunResult
                                           \<lparr>rr_roomId = roomId, rr_language = lang,
                                            rr_startedAt = startedAt,
                                            rr_durationMs = int finishedAt - int startedAt,
                                            rr_exitCode = exitCode res, rr_stdout = stdout res,
                                            rr_stderr = stderr res,
                                            rr_timedOut = timedOut res,
                                            rr_outputTruncated = outputTruncated res,
                                            rr_initiatedBy = initiatedBy\<rparr>))
                                         (io_to st' roomId), Some x)
                                | Rejected \<Rightarrow> ([(sock, ErrorMsg ''Failed to run code'')], Some x)
                                | Pending \<Rightarrow> ([], Some x))))
         | _ \<Rightarrow> ([(sock, ErrorMsg ''Invalid run request'')], None))"

section \<open>Notions used in the statements\<close>

text \<open>What a child writes to each stream up to its \<^verbatim>\<open>'close'\<close>.\<close>

fun stdout_data :: "child \<Rightarrow> string" where
  "stdout_data [] = []"
| "stdout_data ((t, StdoutData chunk) # es) = chunk @ stdout_data es"
| "stdout_data ((t, Close c sg) # es) = []"
| "stdout_data (e # es) = stdout_data es"

fun stderr_data :: "child \<Rightarrow> string" where
  "stderr_data [] = []"
| "stderr_data ((t, StderrData chunk) # es) = chunk @ stderr_data es"
| "stderr_data ((t, Close c sg) # es) = []"
| "stderr_data (e # es) = stderr_data es"


text \<open>A child that fills stdout to the cap, writes on, and is closed after the kill.\<close>

definition flood :: child where
  "flood = [(10, StdoutData (replicate 65536 (CHR ''a''))), (20, StdoutData ''xyz''),
            (25, StderrData ''e''), (30, Close None (Some ''SIGKILL''))]"

definition flooded :: supervisor where
  "flooded = \<lparr>exitCode = None, signal = Some ''SIGKILL'', stdout = replicate 65536 (CHR ''a''),
               stderr = ''e'', timedOut = False, outputTruncated = True, spawnError = None,
               killed = True\<rparr>"



text \<open>Children of a host: a command that is not installed, a script that prints, a compiler
  that rejects its input; and the states their runs close with.\<close>

definition enoent :: child where
  "enoent = [(1, ErrorEv (Some ''ENOENT'') ''Error: spawn ENOENT''), (2, Close (Some (- 2)) None)]"

definition not_spawned :: supervisor where
  "not_spawned = \<lparr>exitCode = Some (- 2), signal = None, stdout = [], stderr = [],
                   timedOut = False, outputTruncated = False, spawnError = Some ''ENOENT'',
                   killed = False\<rparr>"

definition hello :: child where
  "hello = [(5, StdoutData ''hi''), (9, Close (Some 0) None)]"

definition syntax_error :: child where
  "syntax_error = [(300, StderrData ''error: expected ;''), (310, Close (Some 1) None)]"

definition build_error :: supervisor where
  "build_error = \<lparr>exitCode = Some 1, signal = None, stdout = [], stderr = ''error: expected ;'',
                   timedOut = False, outputTruncated = False, spawnError = None, killed = False\<rparr>"

text \<open>A host with no toolchain at all, and one with Node, javac and clang++ only, on
  which removing the temporary directory works or fails.\<close>

definition bare_host :: host where
  "bare_host = \<lparr>proc = (\<lambda>c src. enoent), mkdtemp_ok = True, writeFile_ok = True, rm_ok = True\<rparr>"

definition sample_host :: "bool \<Rightarrow> host" where
  "sample_host ok =
     \<lparr>proc = (\<lambda>c src.
         if c = Node then hello
         else if c = Javac \<or> c = Clangpp then syntax_error
         else enoent),
      mkdtemp_ok = True, writeFile_ok = True, rm_ok = ok\<rparr>"

text \<open>The registry holds no room without participants; every key of it is truthy.\<close>

definition no_empty_room :: "server \<Rightarrow> bool" where
  "no_empty_room st = list_all (\<lambda>(roomId, r). participants r \<noteq> []) (rooms st)"

definition keys_truthy :: "server \<Rightarrow> bool" where
  "keys_truthy st = list_all (\<lambda>(roomId, r). truthy roomId) (rooms st)"

text \<open>The connections recorded as participants of a room, if the room exists.\<close>

definition members :: "server \<Rightarrow> jsval \<Rightarrow> sid list option" where
  "members st roomId = map_option (\<lambda>r. map fst (participants r)) (map_of (rooms st) roomId)"

text \<open>
  States the server reaches: nobody connected; \<open>s1\<close> alone in room R; \<open>s1\<close> and \<open>s2\<close> in
  room R; and \<open>x\<close> who joined room A and then room B, with \<open>y\<close> in room A.
\<close>

definition start :: server where
  "start = \<lparr>rooms = [], userSockets = [], socketRooms = []\<rparr>"

definition solo :: server where
  "solo = fst (join_room (connection start ''s1'' 1) ''s1'' 2
                 (Some \<lparr>jd_roomId = JStr ''R'', jd_username = JStr ''ann''\<rparr>))"

definition solo_room :: room where
  "solo_room = \<lparr>room_id = JStr ''R'', code = JStr (welcome_head @ ''R'' @ welcome_tail),
                 language = JStr ''javascript'',
                 participants = [(''s1'', \<lparr>pid = ''s1'', username = ''ann'', joinedAt = 2,
                                           lastSeen = 2\<rparr>)],
                 createdAt = 2, lastActivity = 2\<rparr>"

definition pair :: server where
  "pair = fst (join_room (connection solo ''s2'' 3) ''s2'' 4
                 (Some \<lparr>jd_roomId = JStr ''R'', jd_username = JStr '' bob ''\<rparr>))"

definition pair_room :: room where
  "pair_room = \<lparr>room_id = JStr ''R'', code = JStr (welcome_head @ ''R'' @ welcome_tail),
                 language = JStr ''javascript'',
                 participants = [(''s1'', \<lparr>pid = ''s1'', username = ''ann'', joinedAt = 2,
                                           lastSeen = 2\<rparr>),
                                 (''s2'', \<lparr>pid = ''s2'', username = ''bob'', joinedAt = 4,
                                           lastSeen = 4\<rparr>)],
                 createdAt = 2, lastActivity = 4\<rparr>"

definition switched :: server where
  "switched =
     (let s1 = connection (connection start ''x'' 1) ''y'' 2;
          s2 = fst (join_room s1 ''x'' 3 (Some \<lparr>jd_roomId = JStr ''A'', jd_username = JStr ''xa''\<rparr>));
          s3 = fst (join_room s2 ''x'' 4 (Some \<lparr>jd_roomId = JStr ''B'', jd_username = JStr ''xa''\<rparr>))
      in fst (join_room s3 ''y'' 5 (Some \<lparr>jd_roomId = JStr ''A'', jd_username = JStr ''yb''\<rparr>)))"

text \<open>A child that writes 65535 bytes and then the three bytes of the euro sign.\<close>

definition cut_euro :: child where
  "cut_euro = [(10, StdoutData (replicate 65535 (CHR ''a'') @ [CHR 0xE2, CHR 0x82, CHR 0xAC])),
               (20, Close None (Some ''SIGKILL''))]"


text \<open>A code-change for room A.\<close>

definition edit_A :: code_data where
  "edit_A = \<lparr>cd_roomId = JStr ''A'', cd_code = JStr ''c'', cd_language = JStr ''python''\<rparr>"

text \<open>Run requests for room R: C++ and Java sources that do not compile.\<close>

definition broken_cpp :: run_data where
  "broken_cpp = \<lparr>rd_roomId = JStr ''R'', rd_code = JStr ''int main() {'',
                  rd_language = JStr ''cpp''\<rparr>"

section \<open>The supervisor's handlers, field by field\<close>

lemma killChild_fields [simp]:
  "killed (killChild s) = True" "stdout (killChild s) = stdout s"
  "stderr (killChild s) = stderr s" "timedOut (killChild s) = timedOut s"
  "outputTruncated (killChild s) = outputTruncated s" "spawnError (killChild s) = spawnError s"
  by (simp_all add: killChild_def)

lemma on_timeout_fields [simp]:
  "killed (on_timeout s) = True" "stdout (on_timeout s) = stdout s"
  "stderr (on_timeout s) = stderr s" "timedOut (on_timeout s) = True"
  "outputTruncated (on_timeout s) = outputTruncated s" "spawnError (on_timeout s) = spawnError s"
  by (simp_all add: on_timeout_def)

lemma on_error_fields [simp]:
  "killed (on_error c x s) = killed s" "stdout (on_error c x s) = stdout s"
  "stderr (on_error c x s) = stderr s" "timedOut (on_error c x s) = timedOut s"
  "outputTruncated (on_error c x s) = outputTruncated s"
  by (simp_all add: on_error_def)

lemma on_stdout_stdout:
  "length (stdout s) \<le> MAX_OUTPUT_BYTES \<Longrightarrow>
   stdout (on_stdout chunk s) = take MAX_OUTPUT_BYTES (stdout s @ chunk)"
  by (auto simp: on_stdout_def Let_def nat_diff_distrib')

lemma on_stdout_fields [simp]:
  "stderr (on_stdout chunk s) = stderr s" "timedOut (on_stdout chunk s) = timedOut s"
  "spawnError (on_stdout chunk s) = spawnError s"
  "killed (on_stdout chunk s) = (killed s \<or> MAX_OUTPUT_BYTES < length (stdout s) + length chunk)"
  "outputTruncated (on_stdout chunk s) =
     (outputTruncated s \<or> MAX_OUTPUT_BYTES < length (stdout s) + length chunk)"
  by (auto simp: on_stdout_def Let_def)

lemma on_stderr_stderr:
  "length (stderr s) \<le> MAX_OUTPUT_BYTES \<Longrightarrow>
   stderr (on_stderr chunk s) = take MAX_OUTPUT_BYTES (stderr s @ chunk)"
  by (auto simp: on_stderr_def Let_def nat_diff_distrib')

lemma on_stderr_fields [simp]:
  "stdout (on_stderr chunk s) = stdout s" "timedOut (on_stderr chunk s) = timedOut s"
  "spawnError (on_stderr chunk s) = spawnError s"
  "killed (on_stderr chunk s) = (killed s \<or> MAX_OUTPUT_BYTES < length (stderr s) + length chunk)"
  "outputTruncated (on_stderr chunk s) =
     (outputTruncated s \<or> MAX_OUTPUT_BYTES < length (stderr s) + length chunk)"
  by (auto simp: on_stderr_def Let_def)

lemma timer_fields [simp]:
  "stdout (timer t s) = stdout s" "stderr (timer t s) = stderr s"
  "outputTruncated (timer t s) = outputTruncated s"
  "timedOut (timer t s) = (timedOut s \<or> EXECUTION_TIMEOUT_MS \<le> t)"
  "killed (timer t s) = (killed s \<or> (EXECUTION_TIMEOUT_MS \<le> t \<and> \<not> timedOut s))"
  by (auto simp: timer_def)

lemma payload_of_fields [simp]:
  "exitCode (payload_of s) = exitCode s" "signal (payload_of s) = signal s"
  "stdout (payload_of s) = toString_utf8 (stdout s)"
  "stderr (payload_of s) = toString_utf8 (stderr s)"
  "timedOut (payload_of s) = timedOut s" "outputTruncated (payload_of s) = outputTruncated s"
  "spawnError (payload_of s) = spawnError s"
  by (simp_all add: payload_of_def)

lemma take_take_append: "take n (take n xs @ ys) = take n (xs @ ys)"
  by (cases "length xs \<le> n") (simp_all add: min_def)

lemma on_stdout_length:
  "length (stdout s) \<le> MAX_OUTPUT_BYTES \<Longrightarrow> length (stdout (on_stdout chunk s)) \<le> MAX_OUTPUT_BYTES"
  by (simp add: on_stdout_stdout)

lemma on_stderr_length:
  "length (stderr s) \<le> MAX_OUTPUT_BYTES \<Longrightarrow> length (stderr (on_stderr chunk s)) \<le> MAX_OUTPUT_BYTES"
  by (simp add: on_stderr_stderr)

section \<open>Decoding never lengthens\<close>

lemma units_length: "length (units c) \<le> 2"
  by (simp add: units_def)

lemma lead_length:
  "length (fst (lead b)) + (case snd (lead b) of Idle \<Rightarrow> 0 | Await c n lo hi \<Rightarrow> 1) \<le> 1"
  by (simp add: lead_def)

lemma decode_length:
  "length (decode p bs) \<le> length bs + (case p of Idle \<Rightarrow> 0 | Await c n lo hi \<Rightarrow> 1)"
proof (induction bs arbitrary: p)
  case Nil
  then show ?case by (cases p) simp_all
next
  case (Cons b bs)
  have next_lead: "length (fst (lead b) @ decode (snd (lead b)) bs) \<le> Suc (length bs)"
    using Cons.IH [of "snd (lead b)"] lead_length [of b] by simp
  show ?case
  proof (cases p)
    case Idle
    with next_lead show ?thesis by simp
  next
    case (Await c n lo hi)
    have "length (units (c * 64 + b mod 64) @ decode Idle bs) \<le> Suc (Suc (length bs))"
      using Cons.IH [of Idle] units_length [of "c * 64 + b mod 64"] by simp
    moreover have "length (decode (Await (c * 64 + b mod 64) (n - 1) 0x80 0xBF) bs)
        \<le> Suc (Suc (length bs))"
      using Cons.IH [of "Await (c * 64 + b mod 64) (n - 1) 0x80 0xBF"] by simp
    ultimately show ?thesis
      using Await next_lead by simp
  qed
qed

lemma toString_utf8_Nil [simp]: "toString_utf8 [] = []"
  by (simp add: toString_utf8_def)

lemma toString_utf8_length: "length (toString_utf8 buf) \<le> length buf"
  using decode_length [of Idle "map of_char buf"] by (simp add: toString_utf8_def)

text \<open>The euro sign whole, cut after two of its three bytes, and two bytes that start nothing.\<close>

lemma toString_utf8_samples:
  "toString_utf8 [CHR 0xE2, CHR 0x82, CHR 0xAC] = [0x20AC]"
  "toString_utf8 [CHR 0xE2, CHR 0x82] = [0xFFFD]"
  "toString_utf8 [CHR 0xFF, CHR 0xFF] = [0xFFFD, 0xFFFD]"
  by (simp_all add: toString_utf8_def lead_def units_def)

section \<open>What a run captures\<close>

lemma running_stdout:
  "length (stdout s) \<le> MAX_OUTPUT_BYTES \<Longrightarrow>
   stdout (running s ch) = take MAX_OUTPUT_BYTES (stdout s @ stdout_data ch)"
proof (induction ch arbitrary: s)
  case Nil
  then show ?case by simp
next
  case (Cons x es)
  obtain t e where x: "x = (t, e)" by (cases x)
  show ?case
  proof (cases e)
    case (StdoutData chunk)
    have "length (stdout (on_stdout chunk (timer t s))) \<le> MAX_OUTPUT_BYTES"
      using Cons.prems by (simp add: on_stdout_length)
    then have "stdout (running (on_stdout chunk (timer t s)) es) =
        take MAX_OUTPUT_BYTES (stdout (on_stdout chunk (timer t s)) @ stdout_data es)"
      by (rule Cons.IH)
    also have "stdout (on_stdout chunk (timer t s)) = take MAX_OUTPUT_BYTES (stdout s @ chunk)"
      using Cons.prems by (simp add: on_stdout_stdout)
    also have "take MAX_OUTPUT_BYTES (take MAX_OUTPUT_BYTES (stdout s @ chunk) @ stdout_data es) =
        take MAX_OUTPUT_BYTES ((stdout s @ chunk) @ stdout_data es)"
      by (rule take_take_append)
    finally show ?thesis
      using x StdoutData by simp
  next
    case (StderrData chunk)
    with Cons.IH [of "on_stderr chunk (timer t s)"] Cons.prems x show ?thesis by simp
  next
    case (ErrorEv c msg)
    with Cons.IH [of "on_error c msg (timer t s)"] Cons.prems x show ?thesis by simp
  next
    case (Close c sg)
    with Cons.prems x show ?thesis by simp
  qed
qed

lemma running_stderr:
  "length (stderr s) \<le> MAX_OUTPUT_BYTES \<Longrightarrow>
   stderr (running s ch) = take MAX_OUTPUT_BYTES (stderr s @ stderr_data ch)"
proof (induction ch arbitrary: s)
  case Nil
  then show ?case by simp
next
  case (Cons x es)
  obtain t e where x: "x = (t, e)" by (cases x)
  show ?case
  proof (cases e)
    case (StderrData chunk)
    have "length (stderr (on_stderr chunk (timer t s))) \<le> MAX_OUTPUT_BYTES"
      using Cons.prems by (simp add: on_stderr_length)
    then have "stderr (running (on_stderr chunk (timer t s)) es) =
        take MAX_OUTPUT_BYTES (stderr (on_stderr chunk (timer t s)) @ stderr_data es)"
      by (rule Cons.IH)
    also have "stderr (on_stderr chunk (timer t s)) = take MAX_OUTPUT_BYTES (stderr s @ chunk)"
      using Cons.prems by (simp add: on_stderr_stderr)
    also have "take MAX_OUTPUT_BYTES (take MAX_OUTPUT_BYTES (stderr s @ chunk) @ stderr_data es) =
        take MAX_OUTPUT_BYTES ((stderr s @ chunk) @ stderr_data es)"
      by (rule take_take_append)
    finally show ?thesis
      using x StderrData by simp
  next
    case (StdoutData chunk)
    with Cons.IH [of "on_stdout chunk (timer t s)"] Cons.prems x show ?thesis by simp
  next
    case (ErrorEv c msg)
    with Cons.IH [of "on_error c msg (timer t s)"] Cons.prems x show ?thesis by simp
  next
    case (Close c sg)
    with Cons.prems x show ?thesis by simp
  qed
qed

lemma running_truncated:
  "length (stdout s) \<le> MAX_OUTPUT_BYTES \<Longrightarrow> length (stderr s) \<le> MAX_OUTPUT_BYTES \<Longrightarrow>
   outputTruncated (running s ch) =
     (outputTruncated s \<or> MAX_OUTPUT_BYTES < length (stdout s @ stdout_data ch)
        \<or> MAX_OUTPUT_BYTES < length (stderr s @ stderr_data ch))"
proof (induction ch arbitrary: s)
  case Nil
  then show ?case by simp
next
  case (Cons x es)
  obtain t e where x: "x = (t, e)" by (cases x)
  show ?case
  proof (cases e)
    case (StdoutData chunk)
    with Cons.IH [of "on_stdout chunk (timer t s)"] Cons.prems x show ?thesis
      by (auto simp: on_stdout_length on_stdout_stdout)
  next
    case (StderrData chunk)
    with Cons.IH [of "on_stderr chunk (timer t s)"] Cons.prems x show ?thesis
      by (auto simp: on_stderr_length on_stderr_stderr)
  next
    case (ErrorEv c msg)
    with Cons.IH [of "on_error c msg (timer t s)"] Cons.prems x show ?thesis by simp
  next
    case (Close c sg)
    with Cons.prems x show ?thesis by auto
  qed
qed

lemma running_killed:
  "outputTruncated s \<or> timedOut s \<longrightarrow> killed s \<Longrightarrow>
   outputTruncated (running s ch) \<or> timedOut (running s ch) \<longrightarrow> killed (running s ch)"
proof (induction ch arbitrary: s)
  case Nil
  then show ?case by simp
next
  case (Cons x es)
  obtain t e where x: "x = (t, e)" by (cases x)
  show ?case
  proof (cases e)
    case (StdoutData chunk)
    with Cons.IH [of "on_stdout chunk (timer t s)"] Cons.prems x show ?thesis by auto
  next
    case (StderrData chunk)
    with Cons.IH [of "on_stderr chunk (timer t s)"] Cons.prems x show ?thesis by auto
  next
    case (ErrorEv c msg)
    with Cons.IH [of "on_error c msg (timer t s)"] Cons.prems x show ?thesis by auto
  next
    case (Close c sg)
    with Cons.prems x show ?thesis by auto
  qed
qed


lemma remaining_budget: "nat (max 0 (int a - int b)) = a - b"
  by (cases "b \<le> a") (simp_all add: max_def nat_diff_distrib')

lemma spawn_state_fields [simp]:
  "stdout spawn_state = []" "stderr spawn_state = []" "timedOut spawn_state = False"
  "outputTruncated spawn_state = False" "killed spawn_state = False"
  "spawnError spawn_state = None"
  by (simp_all add: spawn_state_def)

lemma limitedSpawn_cases:
  "limitedSpawn ch cl dir =
     (case supervise spawn_state ch of
        None \<Rightarrow> (None, dir)
      | Some s \<Rightarrow> (Some (payload_of s), done_cleanup cl dir))"
  by (simp add: limitedSpawn_def)

lemma limitedSpawn_running:
  "fst (limitedSpawn ch cl dir) =
     (if closed ch then Some (payload_of (running spawn_state ch)) else None)"
  by (simp add: limitedSpawn_def supervise_def)

lemma spawn_in_workspace [simp]: "spawn h c src True = proc h c src"
  by (simp add: spawn_def)

lemma flood_run: "closed flood" "running spawn_state flood = flooded"
  by (simp_all add: flood_def flooded_def spawn_state_def timer_def on_stdout_def on_stderr_def
      killChild_def MAX_OUTPUT_BYTES_def EXECUTION_TIMEOUT_MS_def Let_def)


lemma enoent_run: "supervise spawn_state enoent = Some not_spawned"
  by (simp add: supervise_def enoent_def not_spawned_def spawn_state_def timer_def on_error_def
      EXECUTION_TIMEOUT_MS_def)

lemma spawn_failed_run: "supervise spawn_state spawn_failed = Some not_spawned"
  by (simp add: supervise_def spawn_failed_def not_spawned_def spawn_state_def timer_def
      on_error_def EXECUTION_TIMEOUT_MS_def)

lemma build_error_run: "supervise spawn_state syntax_error = Some build_error"
  by (simp add: supervise_def syntax_error_def build_error_def spawn_state_def timer_def
      on_stderr_def EXECUTION_TIMEOUT_MS_def MAX_OUTPUT_BYTES_def)

lemma hi_run:
  "supervise spawn_state hello =
     Some \<lparr>exitCode = Some 0, signal = None, stdout = ''hi'', stderr = [],
           timedOut = False, outputTruncated = False, spawnError = None, killed = False\<rparr>"
  by (simp add: supervise_def hello_def spawn_state_def timer_def on_stdout_def
      EXECUTION_TIMEOUT_MS_def MAX_OUTPUT_BYTES_def)

lemma done_rm [simp]: "done_cleanup (Some (rm h)) dir = (if rm_ok h then False else dir)"
  by (simp add: done_cleanup_def rm_def)

text \<open>
  When \<^verbatim>\<open>rm\<close> does not fail, the temporary directory is gone whenever an adapter resolves.
\<close>

lemma workspace_removed:
  assumes "rm_ok h"
  shows "outcome (runJavaScript h src) = Resolved res \<Longrightarrow> \<not> tempDir (runJavaScript h src)"
    and "outcome (runPython h src) = Resolved res \<Longrightarrow> \<not> tempDir (runPython h src)"
    and "outcome (runJava h src) = Resolved res \<Longrightarrow> \<not> tempDir (runJava h src)"
    and "outcome (runCpp h src) = Resolved res \<Longrightarrow> \<not> tempDir (runCpp h src)"
  using assms
  by (auto simp: runJavaScript_def runPython_def runJava_def runCpp_def runCpp_compiled_def
      limitedSpawn_cases rm_def done_cleanup_def split: option.splits if_splits)

lemma java_cases:
  assumes "mkdtemp_ok h" and "writeFile_ok h"
    and "supervise spawn_state (proc h Javac src) = Some c"
  shows "runJava h src =
        (if spawnError c = Some ''ENOENT''
         then \<lparr>outcome = (if rm_ok h then Resolved javac_not_found else Rejected),
               tempDir = (\<not> rm_ok h), spawned = [Javac]\<rparr>
         else if exitCode c \<noteq> Some 0
         then \<lparr>outcome = (if rm_ok h then Resolved (payload_of c) else Rejected),
               tempDir = (\<not> rm_ok h), spawned = [Javac]\<rparr>
         else (case supervise spawn_state (proc h Java src) of
                 None \<Rightarrow> \<lparr>outcome = Pending, tempDir = True, spawned = [Javac, Java]\<rparr>
               | Some r \<Rightarrow>
                   \<lparr>outcome = Resolved (if spawnError r = Some ''ENOENT''
                                         then java_not_found (payload_of r) else payload_of r),
                    tempDir = (\<not> rm_ok h), spawned = [Javac, Java]\<rparr>))"
  using assms
  by (simp add: runJava_def limitedSpawn_cases done_cleanup_def rm_def split: option.splits)

lemma cpp_cases:
  assumes "mkdtemp_ok h" and "writeFile_ok h"
    and "supervise spawn_state (proc h Gpp src) = Some g"
    and "if spawnError g = Some ''ENOENT''
         then supervise spawn_state (proc h Clangpp src) = Some c else c = g"
  shows "runCpp h src =
        (if spawnError c = Some ''ENOENT''
         then \<lparr>outcome = (if rm_ok h then Resolved cpp_not_found else Rejected),
               tempDir = (\<not> rm_ok h),
               spawned = (if spawnError g = Some ''ENOENT'' then [Gpp, Clangpp] else [Gpp])\<rparr>
         else if exitCode c \<noteq> Some 0
         then \<lparr>outcome = (if rm_ok h then Resolved (payload_of c) else Rejected),
               tempDir = (\<not> rm_ok h),
               spawned = (if spawnError g = Some ''ENOENT'' then [Gpp, Clangpp] else [Gpp])\<rparr>
         else (case supervise spawn_state (proc h MainExe src) of
                 None \<Rightarrow>
                   \<lparr>outcome = Pending, tempDir = True,
                    spawned = (if spawnError g = Some ''ENOENT'' then [Gpp, Clangpp] else [Gpp])
                              @ [MainExe]\<rparr>
               | Some r \<Rightarrow>
                   \<lparr>outcome = Resolved (payload_of r), tempDir = (\<not> rm_ok h),
                    spawned = (if spawnError g = Some ''ENOENT'' then [Gpp, Clangpp] else [Gpp])
                              @ [MainExe]\<rparr>))"
  using assms
  by (cases "spawnError g = Some ''ENOENT''")
     (simp_all add: runCpp_def runCpp_compiled_def limitedSpawn_cases done_cleanup_def rm_def
        split: option.splits)

section \<open>The registry and the channels\<close>

lemma in_io_to: "s \<in> set (io_to st k) \<longleftrightarrow> k \<in> set (rooms_of st s)"
proof -
  have "s \<in> fst ` set (socketRooms st)" if "k \<in> set (rooms_of st s)"
  proof (cases "map_of (socketRooms st) s")
    case None
    with that show ?thesis by (simp add: rooms_of_def)
  next
    case (Some rs)
    then show ?thesis by (metis map_of_eq_None_iff option.distinct(1))
  qed
  then show ?thesis by (auto simp: io_to_def)
qed

lemma in_socket_to: "s \<in> set (socket_to st sock k) \<longleftrightarrow> k \<in> set (rooms_of st s) \<and> s \<noteq> sock"
  by (auto simp: socket_to_def in_io_to)

lemma socket_to_rooms_upd [simp]: "socket_to (st\<lparr>rooms := rs\<rparr>) = socket_to st"
  by (auto simp: socket_to_def io_to_def rooms_of_def fun_eq_iff)

lemma update_appended:
  "map_of al k = None \<Longrightarrow> AList.update k v (al @ [(k, w)]) = al @ [(k, v)]"
  by (induction al) (auto split: if_splits)

lemma list_all_update:
  "list_all P al \<Longrightarrow> P (k, v) \<Longrightarrow> list_all P (AList.update k v al)"
  by (induction al) auto

lemma remove_elem:
  "(a, b) \<in> set (fst (remove_from_rooms dest sock now rs)) \<Longrightarrow>
   a \<in> fst ` set rs \<and> ((a, b) \<in> set rs \<or> participants b \<noteq> [])"
proof (induction rs)
  case Nil
  then show ?case by simp
next
  case (Cons x rs)
  obtain k r where x: "x = (k, r)" by (cases x)
  obtain rest evs where rest: "remove_from_rooms dest sock now rs = (rest, evs)"
    by (cases "remove_from_rooms dest sock now rs")
  show ?case
  proof (cases "(a, b) \<in> set rest")
    case True
    with Cons.IH rest show ?thesis by auto
  next
    case False
    with Cons.prems x rest show ?thesis
      by (auto simp: Let_def split: option.splits if_splits)
  qed
qed

lemma remove_keys:
  "fst ` set (fst (remove_from_rooms dest sock now rs)) \<subseteq> fst ` set rs"
  using remove_elem by fastforce

lemma remove_emptied:
  "distinct (map fst rs) \<Longrightarrow> map_of rs k = Some r \<Longrightarrow> map_of (participants r) sock \<noteq> None \<Longrightarrow>
   AList.delete sock (participants r) = [] \<Longrightarrow>
   map_of (fst (remove_from_rooms dest sock now rs)) k = None"
proof (induction rs)
  case Nil
  then show ?case by simp
next
  case (Cons x rs)
  obtain k' r' where x: "x = (k', r')" by (cases x)
  obtain rest evs where rest: "remove_from_rooms dest sock now rs = (rest, evs)"
    by (cases "remove_from_rooms dest sock now rs")
  have keys: "fst ` set rest \<subseteq> fst ` set rs"
    using remove_keys [of dest sock now rs] rest by simp
  show ?case
  proof (cases "k' = k")
    case True
    with Cons.prems x have "r' = r" and "k \<notin> fst ` set rs" by auto
    with keys have "map_of rest k = None"
      by (auto simp: map_of_eq_None_iff)
    with Cons.prems True x rest \<open>r' = r\<close> show ?thesis
      by (auto simp: Let_def)
  next
    case False
    with Cons.prems x have "map_of rs k = Some r" and "distinct (map fst rs)" by auto
    with Cons.IH Cons.prems rest have "map_of rest k = None" by simp
    with False x rest show ?thesis
      by (auto simp: Let_def split: option.splits)
  qed
qed

lemma remove_no_empty:
  "list_all (\<lambda>(k, r). participants r \<noteq> []) rs \<Longrightarrow>
   list_all (\<lambda>(k, r). participants r \<noteq> []) (fst (remove_from_rooms dest sock now rs))"
  unfolding list_all_iff using remove_elem by fastforce

lemma disconnect_rooms:
  "rooms (fst (disconnect st sock now)) =
     fst (remove_from_rooms (socket_to (st\<lparr>socketRooms := AList.delete sock (socketRooms st),
                   userSockets := AList.delete sock (userSockets st)\<rparr>) sock) sock now (rooms st))"
  by (simp add: disconnect_def Let_def split: prod.splits)

lemma join_no_empty:
  assumes "no_empty_room st"
  shows "no_empty_room (fst (join_room st sock now (Some \<lparr>jd_roomId = k, jd_username = JStr u\<rparr>)))"
proof (cases "truthy k \<and> u \<noteq> []")
  case False
  with assms show ?thesis by (auto simp: join_room_def)
next
  case True
  let ?P = "\<lambda>(k :: jsval, r). participants r \<noteq> []"
  show ?thesis
  proof (cases "map_of (rooms st) k")
    case None
    with True assms show ?thesis
      by (simp add: join_room_def getOrCreateRoom_def Let_def no_empty_room_def update_appended)
  next
    case (Some r)
    with True assms show ?thesis
      by (simp add: join_room_def getOrCreateRoom_def Let_def no_empty_room_def list_all_update)
  qed
qed

lemma found_nonempty:
  "no_empty_room st \<Longrightarrow> map_of (rooms st) k = Some r \<Longrightarrow> participants r \<noteq> []"
  by (auto simp: no_empty_room_def list_all_iff dest: map_of_SomeD)

lemma code_change_no_empty:
  assumes "no_empty_room st"
  shows "no_empty_room (fst (code_change st sock now data))"
proof (cases data)
  case None
  with assms show ?thesis by (simp add: code_change_def)
next
  case (Some d)
  show ?thesis
  proof (cases "map_of (rooms st) (cd_roomId d)")
    case None
    with Some assms show ?thesis by (simp add: code_change_def)
  next
    case (Some r)
    with found_nonempty [OF assms Some] assms \<open>data = Some d\<close> show ?thesis
      by (auto simp: code_change_def Let_def no_empty_room_def list_all_update
          split: option.splits)
  qed
qed

lemma language_change_no_empty:
  assumes "no_empty_room st"
  shows "no_empty_room (fst (language_change st sock now data))"
proof (cases data)
  case None
  with assms show ?thesis by (simp add: language_change_def)
next
  case (Some d)
  show ?thesis
  proof (cases "map_of (rooms st) (ld_roomId d)")
    case None
    with Some assms show ?thesis by (simp add: language_change_def)
  next
    case (Some r)
    with found_nonempty [OF assms Some] assms \<open>data = Some d\<close> show ?thesis
      by (auto simp: language_change_def Let_def no_empty_room_def list_all_update)
  qed
qed

lemma cleanup_no_empty:
  "no_empty_room st \<Longrightarrow> no_empty_room (cleanupInactiveRooms st now)"
  by (auto simp: cleanupInactiveRooms_def no_empty_room_def list_all_iff)

lemma trim_names:
  "trim ''ann'' = ''ann''" "trim '' bob '' = ''bob''" "trim ''xa'' = ''xa''"
  "trim ''yb'' = ''yb''" "trim ''   '' = []"
  by (simp_all add: trim_def ws1_def ws2_def ws3_def)

lemma solo_eval:
  "solo = \<lparr>rooms = [(JStr ''R'',
              \<lparr>room_id = JStr ''R'', code = JStr (welcome_head @ ''R'' @ welcome_tail),
               language = JStr ''javascript'',
               participants = [(''s1'', \<lparr>pid = ''s1'', username = ''ann'', joinedAt = 2, lastSeen = 2\<rparr>)],
               createdAt = 2, lastActivity = 2\<rparr>)],
           userSockets = [(''s1'', 1)],
           socketRooms = [(''s1'', [JStr ''s1'', JStr ''R''])]\<rparr>"
  by (simp add: solo_def start_def connection_def join_room_def getOrCreateRoom_def rooms_of_def
      Let_def trim_names)

lemma switched_eval:
  "members switched (JStr ''A'') = Some [''x'', ''y'']"
  "members switched (JStr ''B'') = Some [''x'']"
  "socketRooms switched = [(''x'', [JStr ''x'', JStr ''B'']), (''y'', [JStr ''y'', JStr ''A''])]"
  by (simp_all add: switched_def members_def start_def connection_def join_room_def
      getOrCreateRoom_def rooms_of_def Let_def trim_names)

lemma pair_eval:
  "pair = \<lparr>rooms = [(JStr ''R'', pair_room)], userSockets = [(''s1'', 1), (''s2'', 3)],
           socketRooms = [(''s1'', [JStr ''s1'', JStr ''R'']), (''s2'', [JStr ''s2'', JStr ''R''])]\<rparr>"
  by (simp add: pair_def pair_room_def solo_eval connection_def join_room_def getOrCreateRoom_def
      rooms_of_def Let_def trim_names)

lemma code_change_found:
  assumes "map_of (rooms st) (cd_roomId d) = Some r"
  shows "\<exists>r'. code_change st sock now (Some d) =
           (st\<lparr>rooms := AList.update (cd_roomId d) r' (rooms st)\<rparr>,
            map (\<lambda>s. (s, CodeUpdate (code r') (language r')
                          (name_or_unknown (map_of (participants r) sock))))
                (socket_to st sock (cd_roomId d))) \<and>
         code r' = (if cd_code d = JUndefined then code r else cd_code d) \<and>
         language r' = (if truthy (cd_language d) then cd_language d else language r) \<and>
         lastActivity r' = now \<and>
         (map_of (participants r) sock = None \<longrightarrow> participants r' = participants r)"
  using assms by (auto simp: code_change_def Let_def split: option.splits)

text \<open>A join-room leaves the registry's entry of every other room as it was.\<close>

lemma join_room_other_rooms:
  "k \<noteq> jd_roomId d \<Longrightarrow>
   map_of (rooms (fst (join_room st sock now (Some d)))) k = map_of (rooms st) k"
  by (auto simp: join_room_def getOrCreateRoom_def Let_def update_conv' map_add_def
      split: option.splits jsval.splits)

lemma falsy_key_absent: "keys_truthy st \<Longrightarrow> \<not> truthy k \<Longrightarrow> map_of (rooms st) k = None"
  by (auto simp: keys_truthy_def list_all_iff map_of_eq_None_iff)

section \<open>Rooms without participants\<close>

text \<open>
  Claim C1, as the code has it. When a disconnect takes the last participant out of a
  room, the room is gone from the registry when the handler returns. A registry that
  holds no empty room holds none after a disconnect, after a join-room whose username
  is a string, after a code-change or a language-change, and after the sweep.
\<close>

theorem disconnect_deletes_emptied_room:
  "(distinct (map fst (rooms st)) \<longrightarrow> map_of (rooms st) k = Some r \<longrightarrow>
      map_of (participants r) sock \<noteq> None \<longrightarrow> AList.delete sock (participants r) = [] \<longrightarrow>
      map_of (rooms (fst (disconnect st sock now))) k = None) \<and>
   (no_empty_room st \<longrightarrow>
      no_empty_room (fst (disconnect st sock now)) \<and>
      no_empty_room (fst (join_room st sock now (Some \<lparr>jd_roomId = k, jd_username = JStr u\<rparr>))) \<and>
      no_empty_room (fst (code_change st sock now cd)) \<and>
      no_empty_room (fst (language_change st sock now ld)) \<and>
      no_empty_room (cleanupInactiveRooms st now))"
proof -
  have "no_empty_room (fst (disconnect st sock now))" if "no_empty_room st"
    using that unfolding no_empty_room_def disconnect_rooms by (rule remove_no_empty)
  then show ?thesis
    by (simp add: disconnect_rooms remove_emptied join_no_empty code_change_no_empty
        language_change_no_empty cleanup_no_empty)
qed

theorem disconnect_deletes_emptied_room_witness:
  "distinct (map fst (rooms solo)) \<and> map_of (rooms solo) (JStr ''R'') = Some solo_room \<and>
   map_of (participants solo_room) ''s1'' \<noteq> None \<and>
   AList.delete ''s1'' (participants solo_room) = [] \<and>
   map_of (rooms (fst (disconnect solo ''s1'' 9))) (JStr ''R'') = None \<and>
   no_empty_room pair \<and> no_empty_room (fst (disconnect pair ''s1'' 9)) \<and>
   no_empty_room (fst (join_room pair ''s1'' 9
       (Some \<lparr>jd_roomId = JStr ''Q'', jd_username = JStr ''ann''\<rparr>)))"
proof -
  have a: "distinct (map fst (rooms solo))" "map_of (rooms solo) (JStr ''R'') = Some solo_room"
    "map_of (participants solo_room) ''s1'' \<noteq> None"
    "AList.delete ''s1'' (participants solo_room) = []"
    by (simp_all add: solo_eval solo_room_def)
  have b: "no_empty_room pair"
    by (simp add: no_empty_room_def pair_eval pair_room_def)
  from disconnect_deletes_emptied_room [where st = solo and k = "JStr ''R''" and r = solo_room
      and sock = "''s1''" and now = 9] a
  have 1: "map_of (rooms (fst (disconnect solo ''s1'' 9))) (JStr ''R'') = None"
    by blast
  from disconnect_deletes_emptied_room [where st = pair and k = "JStr ''Q''" and sock = "''s1''"
      and now = 9 and u = "''ann''"] b
  have 2: "no_empty_room (fst (disconnect pair ''s1'' 9))"
    "no_empty_room (fst (join_room pair ''s1'' 9
       (Some \<lparr>jd_roomId = JStr ''Q'', jd_username = JStr ''ann''\<rparr>)))"
    by blast+
  from a b 1 2 show ?thesis by simp
qed

text \<open>
  The claim's last sentence, that the registry never holds a room with zero participants
  between events, fails: a join-room whose username is the number 42 creates room R,
  then throws at \<^verbatim>\<open>username.trim()\<close>, and the room stays without participants.
\<close>

theorem failed_join_leaves_empty_room:
  "\<not> no_empty_room (fst (join_room (connection start ''s1'' 1) ''s1'' 2
        (Some \<lparr>jd_roomId = JStr ''R'', jd_username = JNum 42\<rparr>)))"
  by (simp add: no_empty_room_def join_room_def getOrCreateRoom_def connection_def start_def
      rooms_of_def Let_def)

section \<open>Switching rooms\<close>

text \<open>
  Claim C2, at the input where the code parts from it. Connection \<open>x\<close> joins room A and
  then room B. socket.io has it in channel B only, but the registry keeps its record in
  room A beside the new one in room B: the join handler calls \<^verbatim>\<open>socket.leave\<close> and never
  deletes from the previous room's \<^verbatim>\<open>participants\<close>.
\<close>

theorem room_switch_keeps_old_record:
  "members switched (JStr ''A'') = Some [''x'', ''y''] \<and>
   members switched (JStr ''B'') = Some [''x''] \<and>
   rooms_of switched ''x'' = [JStr ''x'', JStr ''B'']"
  by (simp add: switched_eval rooms_of_def)

section \<open>Events that fail validation\<close>

text \<open>
  What the handlers do check. A join-room whose roomId or username is missing or falsy,
  a run-code whose roomId or language is missing or falsy or whose code is not a string,
  a code-change or language-change whose roomId is missing or falsy (no room has such a
  key), and any of the four without a payload: each sends one error event, to the
  sender, and returns the state it was given.
\<close>

lemma invalid_event_rejected:
  "(\<not> truthy (jd_roomId j) \<or> \<not> truthy (jd_username j) \<longrightarrow>
      join_room st sock now (Some j) =
        (st, [(sock, ErrorMsg ''Room ID and username are required'')])) \<and>
   join_room st sock now None = (st, [(sock, ErrorMsg ''Failed to join room'')]) \<and>
   (keys_truthy st \<and> \<not> truthy (cd_roomId c) \<longrightarrow>
      code_change st sock now (Some c) = (st, [(sock, ErrorMsg ''Room not found'')])) \<and>
   code_change st sock now None = (st, [(sock, ErrorMsg ''Failed to update code'')]) \<and>
   (keys_truthy st \<and> \<not> truthy (ld_roomId l) \<longrightarrow>
      language_change st sock now (Some l) = (st, [(sock, ErrorMsg ''Room not found'')])) \<and>
   language_change st sock now None = (st, [(sock, ErrorMsg ''Failed to update language'')]) \<and>
   (\<not> truthy (rd_roomId q) \<or> (\<forall>src. rd_code q \<noteq> JStr src) \<or> \<not> truthy (rd_language q) \<longrightarrow>
      run_code st st' sock now fin h (Some q) = ([(sock, ErrorMsg ''Invalid run request'')], None)) \<and>
   run_code st st' sock now fin h None = ([(sock, ErrorMsg ''Invalid run request'')], None)"
proof -
  have "run_code st st' sock now fin h (Some q) = ([(sock, ErrorMsg ''Invalid run request'')], None)"
    if "\<not> truthy (rd_roomId q) \<or> (\<forall>src. rd_code q \<noteq> JStr src) \<or> \<not> truthy (rd_language q)"
    using that by (cases "rd_code q") (auto simp: run_code_def Let_def)
  then show ?thesis
    by (auto simp: join_room_def code_change_def language_change_def run_code_def
        falsy_key_absent)
qed

text \<open>
  Claim C3, at the inputs where the code parts from it. A language-change that names
  room R and has no language is not answered with an error: the room's language becomes
  \<^verbatim>\<open>undefined\<close>, \<open>lastActivity\<close> is touched and the other participant is sent a
  language-update. A join-room whose username is three spaces passes \<^verbatim>\<open>!username\<close>, which
  is tested before the name is trimmed: the sender gets the room-state and is a
  participant with the empty name.
\<close>

theorem unvalidated_fields_change_state:
  "language_change pair ''s1'' 9 (Some \<lparr>ld_roomId = JStr ''R'', ld_language = JUndefined\<rparr>) =
     (pair\<lparr>rooms := [(JStr ''R'', pair_room\<lparr>language := JUndefined, lastActivity := 9\<rparr>)]\<rparr>,
      [(''s2'', LanguageUpdate JUndefined ''ann'')]) \<and>
   snd (join_room (connection start ''s1'' 1) ''s1'' 2
          (Some \<lparr>jd_roomId = JStr ''R'', jd_username = JStr ''   ''\<rparr>)) =
     [(''s1'', RoomState (JStr (welcome_head @ ''R'' @ welcome_tail)) (JStr ''javascript'')
                 [\<lparr>pid = ''s1'', username = [], joinedAt = 2, lastSeen = 2\<rparr>])] \<and>
   members (fst (join_room (connection start ''s1'' 1) ''s1'' 2
          (Some \<lparr>jd_roomId = JStr ''R'', jd_username = JStr ''   ''\<rparr>))) (JStr ''R'') =
     Some [''s1'']"
proof -
  have "socket_to st ''s1'' (JStr ''R'') = [''s2'']" if "socketRooms st = socketRooms pair" for st
    using that by (simp add: pair_eval socket_to_def io_to_def rooms_of_def)
  then have lc: "language_change pair ''s1'' 9
       (Some \<lparr>ld_roomId = JStr ''R'', ld_language = JUndefined\<rparr>) =
     (pair\<lparr>rooms := [(JStr ''R'', pair_room\<lparr>language := JUndefined, lastActivity := 9\<rparr>)]\<rparr>,
      [(''s2'', LanguageUpdate JUndefined ''ann'')])"
    by (simp add: language_change_def Let_def name_or_unknown_def pair_eval pair_room_def)
  have jr: "join_room (connection start ''s1'' 1) ''s1'' 2
          (Some \<lparr>jd_roomId = JStr ''R'', jd_username = JStr ''   ''\<rparr>) =
     (\<lparr>rooms = [(JStr ''R'',
          \<lparr>room_id = JStr ''R'', code = JStr (welcome_head @ ''R'' @ welcome_tail),
           language = JStr ''javascript'',
           participants = [(''s1'', \<lparr>pid = ''s1'', username = [], joinedAt = 2, lastSeen = 2\<rparr>)],
           createdAt = 2, lastActivity = 2\<rparr>)],
       userSockets = [(''s1'', 1)],
       socketRooms = [(''s1'', [JStr ''s1'', JStr ''R''])]\<rparr>,
      [(''s1'', RoomState (JStr (welcome_head @ ''R'' @ welcome_tail)) (JStr ''javascript'')
                 [\<lparr>pid = ''s1'', username = [], joinedAt = 2, lastSeen = 2\<rparr>])])"
    by (simp add: start_def connection_def join_room_def getOrCreateRoom_def rooms_of_def
        socket_to_def io_to_def Let_def trim_names)
  from lc jr show ?thesis
    by (simp add: members_def)
qed

theorem unvalidated_fields_change_state_witness:
  "map fst (snd (language_change pair ''s1'' 9
       (Some \<lparr>ld_roomId = JStr ''R'', ld_language = JUndefined\<rparr>))) = [''s2''] \<and>
   map fst (snd (join_room (connection start ''s1'' 1) ''s1'' 2
          (Some \<lparr>jd_roomId = JStr ''R'', jd_username = JStr ''   ''\<rparr>))) = [''s1'']"
  using unvalidated_fields_change_state by simp

section \<open>Code changes\<close>

text \<open>
  What the code-change handler does on an existing room. A connection receives an event
  exactly when it has joined the room's channel and is not the sender; every event sent
  is the code-update with the room's new code and language; the room's code is the
  supplied one unless the field is missing, and its language the supplied one when that
  is truthy.
\<close>

lemma code_change_reaches_channel:
  assumes "map_of (rooms st) (cd_roomId d) = Some r"
  shows "(\<forall>s. (s \<in> fst ` set (snd (code_change st sock now (Some d)))) =
              (cd_roomId d \<in> set (rooms_of st s) \<and> s \<noteq> sock)) \<and>
         (\<forall>(s, e) \<in> set (snd (code_change st sock now (Some d))).
              e = CodeUpdate (if cd_code d = JUndefined then code r else cd_code d)
                    (if truthy (cd_language d) then cd_language d else language r)
                    (name_or_unknown (map_of (participants r) sock))) \<and>
         map_option code (map_of (rooms (fst (code_change st sock now (Some d)))) (cd_roomId d)) =
           Some (if cd_code d = JUndefined then code r else cd_code d) \<and>
         map_option language
             (map_of (rooms (fst (code_change st sock now (Some d)))) (cd_roomId d)) =
           Some (if truthy (cd_language d) then cd_language d else language r)"
proof -
  from code_change_found [OF assms] obtain r' where
    eq: "code_change st sock now (Some d) =
           (st\<lparr>rooms := AList.update (cd_roomId d) r' (rooms st)\<rparr>,
            map (\<lambda>s. (s, CodeUpdate (code r') (language r')
                          (name_or_unknown (map_of (participants r) sock))))
                (socket_to st sock (cd_roomId d)))"
    and c: "code r' = (if cd_code d = JUndefined then code r else cd_code d)"
    and l: "language r' = (if truthy (cd_language d) then cd_language d else language r)"
    by blast
  have "fst ` set (snd (code_change st sock now (Some d))) = set (socket_to st sock (cd_roomId d))"
    by (simp add: eq image_image)
  then have "\<forall>s. (s \<in> fst ` set (snd (code_change st sock now (Some d)))) =
              (cd_roomId d \<in> set (rooms_of st s) \<and> s \<noteq> sock)"
    by (simp add: in_socket_to)
  moreover have "\<forall>(s, e) \<in> set (snd (code_change st sock now (Some d))).
              e = CodeUpdate (if cd_code d = JUndefined then code r else cd_code d)
                    (if truthy (cd_language d) then cd_language d else language r)
                    (name_or_unknown (map_of (participants r) sock))"
    using c l by (auto simp: eq)
  moreover have "map_of (rooms (fst (code_change st sock now (Some d)))) (cd_roomId d) = Some r'"
    by (simp add: eq update_conv')
  ultimately show ?thesis
    using c l by simp
qed

text \<open>
  Claim C4, at the input where the code parts from it. \<open>x\<close> joined room A and then room B;
  the registry still has \<open>x\<close> among the participants of room A, and socket.io has it in
  channel B only. The code-update of \<open>y\<close>'s code-change in room A goes to the channel:
  \<open>x\<close>, a participant of the room other than the sender, gets none.
\<close>

theorem code_change_misses_stale_participant:
  "members switched (JStr ''A'') = Some [''x'', ''y''] \<and>
   rooms_of switched ''x'' = [JStr ''x'', JStr ''B''] \<and>
   snd (code_change switched ''y'' 6 (Some edit_A)) = []"
proof -
  obtain r where r: "map_of (rooms switched) (JStr ''A'') = Some r"
    using switched_eval(1) by (auto simp: members_def)
  then have r': "map_of (rooms switched) (cd_roomId edit_A) = Some r"
    by (simp add: edit_A_def)
  from code_change_found [OF r', of "''y''" 6] obtain q where
    eq: "code_change switched ''y'' 6 (Some edit_A) =
        (switched\<lparr>rooms := AList.update (cd_roomId edit_A) q (rooms switched)\<rparr>,
         map (\<lambda>s. (s, CodeUpdate (code q) (language q)
                      (name_or_unknown (map_of (participants r) ''y''))))
             (socket_to switched ''y'' (cd_roomId edit_A)))"
    by blast
  have none: "socket_to switched ''y'' (cd_roomId edit_A) = []"
    by (simp add: socket_to_def io_to_def rooms_of_def switched_eval edit_A_def)
  with eq show ?thesis
    by (simp add: switched_eval rooms_of_def)
qed

text \<open>
  Claim C10. A code-change that names an existing room is carried out for a sender who
  is not among the room's participants: code and language are set from the payload,
  \<open>lastActivity\<close> is the time of the event, the participants are as they were, and
  everybody in the channel but the sender gets a code-update whose \<open>updatedBy\<close> is
  \<open>Unknown\<close>.
\<close>

theorem code_change_without_membership:
  assumes "map_of (rooms st) (cd_roomId d) = Some r"
    and "map_of (participants r) sock = None"
  shows "code_change st sock now (Some d) =
           (st\<lparr>rooms := AList.update (cd_roomId d)
                  (r\<lparr>code := (if cd_code d = JUndefined then code r else cd_code d),
                     language := (if truthy (cd_language d) then cd_language d else language r),
                     lastActivity := now\<rparr>) (rooms st)\<rparr>,
            map (\<lambda>s. (s, CodeUpdate (if cd_code d = JUndefined then code r else cd_code d)
                          (if truthy (cd_language d) then cd_language d else language r)
                          ''Unknown''))
                (socket_to st sock (cd_roomId d))) \<and>
         sock \<notin> set (socket_to st sock (cd_roomId d))"
  using assms by (simp add: code_change_def Let_def name_or_unknown_def in_socket_to)

theorem code_change_without_membership_witness:
  "map_of (rooms pair) (JStr ''R'') = Some pair_room \<and>
   map_of (participants pair_room) ''s9'' = None \<and>
   code_change pair ''s9'' 8
       (Some \<lparr>cd_roomId = JStr ''R'', cd_code = JStr ''x = 1'', cd_language = JStr ''python''\<rparr>) =
     (pair\<lparr>rooms := [(JStr ''R'', pair_room\<lparr>code := JStr ''x = 1'', language := JStr ''python'',
                                              lastActivity := 8\<rparr>)]\<rparr>,
      [(''s1'', CodeUpdate (JStr ''x = 1'') (JStr ''python'') ''Unknown''),
       (''s2'', CodeUpdate (JStr ''x = 1'') (JStr ''python'') ''Unknown'')])"
proof -
  have a: "map_of (rooms pair) (JStr ''R'') = Some pair_room"
    "map_of (participants pair_room) ''s9'' = None"
    by (simp_all add: pair_eval pair_room_def)
  have b: "socket_to pair ''s9'' (JStr ''R'') = [''s1'', ''s2'']"
    "rooms pair = [(JStr ''R'', pair_room)]"
    by (simp_all add: pair_eval socket_to_def io_to_def rooms_of_def)
  from code_change_without_membership [where st = pair and r = pair_room and sock = "''s9''"
      and now = 8 and d = "\<lparr>cd_roomId = JStr ''R'', cd_code = JStr ''x = 1'',
        cd_language = JStr ''python''\<rparr>"] a b
  show ?thesis
    by simp
qed

section \<open>The process supervisor: output caps and the timeout\<close>

text \<open>
  Claim C5. stdout and stderr are capped independently at 64KB. A chunk that would take a
  stream past \<open>MAX_OUTPUT_BYTES\<close> is cut to the bytes still free, \<open>outputTruncated\<close> is set
  and \<open>killChild\<close> runs in the same handler. At every point of a run each Buffer holds
  the first \<open>MAX_OUTPUT_BYTES\<close> bytes of what the child wrote to the stream;
  \<open>outputTruncated\<close> says whether either stream wrote more, and then SIGKILL was sent.
  The result delivered at \<^verbatim>\<open>'close'\<close> has each Buffer decoded as UTF-8, and the length of
  each decoded string is at most the cap.
\<close>

theorem output_capped:
  "(MAX_OUTPUT_BYTES < length (stdout s0) + length chunk \<longrightarrow>
      on_stdout chunk s0 =
        s0\<lparr>stdout := stdout s0 @ take (MAX_OUTPUT_BYTES - length (stdout s0)) chunk,
           outputTruncated := True, killed := True\<rparr>) \<and>
   (MAX_OUTPUT_BYTES < length (stderr s0) + length chunk \<longrightarrow>
      on_stderr chunk s0 =
        s0\<lparr>stderr := stderr s0 @ take (MAX_OUTPUT_BYTES - length (stderr s0)) chunk,
           outputTruncated := True, killed := True\<rparr>) \<and>
   stdout (running spawn_state ch) = take MAX_OUTPUT_BYTES (stdout_data ch) \<and>
   stderr (running spawn_state ch) = take MAX_OUTPUT_BYTES (stderr_data ch) \<and>
   outputTruncated (running spawn_state ch) =
     (MAX_OUTPUT_BYTES < length (stdout_data ch) \<or> MAX_OUTPUT_BYTES < length (stderr_data ch)) \<and>
   (outputTruncated (running spawn_state ch) \<longrightarrow> killed (running spawn_state ch)) \<and>
   (closed ch \<longrightarrow>
      (\<exists>res. fst (limitedSpawn ch cl dir) = Some res \<and>
         stdout res = toString_utf8 (take MAX_OUTPUT_BYTES (stdout_data ch)) \<and>
         stderr res = toString_utf8 (take MAX_OUTPUT_BYTES (stderr_data ch)) \<and>
         length (stdout res) \<le> MAX_OUTPUT_BYTES \<and>
         length (stderr res) \<le> MAX_OUTPUT_BYTES \<and>
         outputTruncated res =
           (MAX_OUTPUT_BYTES < length (stdout_data ch) \<or>
            MAX_OUTPUT_BYTES < length (stderr_data ch))))"
proof -
  have step_out: "on_stdout chunk s0 =
        s0\<lparr>stdout := stdout s0 @ take (MAX_OUTPUT_BYTES - length (stdout s0)) chunk,
           outputTruncated := True, killed := True\<rparr>"
    if "MAX_OUTPUT_BYTES < length (stdout s0) + length chunk"
    using that by (cases s0) (simp add: on_stdout_def killChild_def Let_def remaining_budget)
  have step_err: "on_stderr chunk s0 =
        s0\<lparr>stderr := stderr s0 @ take (MAX_OUTPUT_BYTES - length (stderr s0)) chunk,
           outputTruncated := True, killed := True\<rparr>"
    if "MAX_OUTPUT_BYTES < length (stderr s0) + length chunk"
    using that by (cases s0) (simp add: on_stderr_def killChild_def Let_def remaining_budget)
  have out: "stdout (running spawn_state ch) = take MAX_OUTPUT_BYTES (stdout_data ch)"
    using running_stdout [of spawn_state ch] by simp
  have err: "stderr (running spawn_state ch) = take MAX_OUTPUT_BYTES (stderr_data ch)"
    using running_stderr [of spawn_state ch] by simp
  have tr: "outputTruncated (running spawn_state ch) =
     (MAX_OUTPUT_BYTES < length (stdout_data ch) \<or> MAX_OUTPUT_BYTES < length (stderr_data ch))"
    using running_truncated [of spawn_state ch] by simp
  have k: "outputTruncated (running spawn_state ch) \<longrightarrow> killed (running spawn_state ch)"
    using running_killed [of spawn_state ch] by simp
  have len_out: "length (toString_utf8 (take MAX_OUTPUT_BYTES (stdout_data ch))) \<le> MAX_OUTPUT_BYTES"
    using toString_utf8_length [of "take MAX_OUTPUT_BYTES (stdout_data ch)"] by simp
  have len_err: "length (toString_utf8 (take MAX_OUTPUT_BYTES (stderr_data ch))) \<le> MAX_OUTPUT_BYTES"
    using toString_utf8_length [of "take MAX_OUTPUT_BYTES (stderr_data ch)"] by simp
  have "\<exists>res. fst (limitedSpawn ch cl dir) = Some res \<and>
         stdout res = toString_utf8 (take MAX_OUTPUT_BYTES (stdout_data ch)) \<and>
         stderr res = toString_utf8 (take MAX_OUTPUT_BYTES (stderr_data ch)) \<and>
         length (stdout res) \<le> MAX_OUTPUT_BYTES \<and>
         length (stderr res) \<le> MAX_OUTPUT_BYTES \<and>
         outputTruncated res =
           (MAX_OUTPUT_BYTES < length (stdout_data ch) \<or>
            MAX_OUTPUT_BYTES < length (stderr_data ch))"
    if "closed ch"
    using that out err tr len_out len_err by (simp add: limitedSpawn_running)
  with step_out step_err out err tr k show ?thesis by blast
qed

lemma decode_ascii_run:
  "b \<le> 0x7F \<Longrightarrow> decode Idle (replicate n b @ bs) = replicate n b @ decode Idle bs"
  by (induction n) (simp_all add: lead_def)

lemma cut_euro_run:
  "closed cut_euro"
  "stdout_data cut_euro = replicate 65535 (CHR ''a'') @ [CHR 0xE2, CHR 0x82, CHR 0xAC]"
  "stderr_data cut_euro = []"
  by (simp_all add: cut_euro_def)

theorem output_capped_witness:
  "MAX_OUTPUT_BYTES < length (stdout flooded) + length ''xyz'' \<and>
   on_stdout ''xyz'' flooded = flooded \<and>
   MAX_OUTPUT_BYTES < length (stderr spawn_state) + length (replicate 65537 (CHR ''e'')) \<and>
   stderr (on_stderr (replicate 65537 (CHR ''e'')) spawn_state) = replicate 65536 (CHR ''e'') \<and>
   stdout (running spawn_state flood) = replicate 65536 (CHR ''a'') \<and>
   outputTruncated (running spawn_state flood) \<and> killed (running spawn_state flood) \<and>
   closed cut_euro \<and>
   map_option stdout (fst (limitedSpawn cut_euro None True)) =
     Some (replicate 65535 97 @ [0xFFFD]) \<and>
   map_option outputTruncated (fst (limitedSpawn cut_euro None True)) = Some True"
proof -
  have a: "MAX_OUTPUT_BYTES < length (stdout flooded) + length ''xyz''"
    by (simp add: flooded_def MAX_OUTPUT_BYTES_def)
  have b: "MAX_OUTPUT_BYTES < length (stderr spawn_state) + length (replicate 65537 (CHR ''e''))"
    by (simp add: MAX_OUTPUT_BYTES_def)
  have d: "stdout_data flood = replicate 65536 (CHR ''a'') @ ''xyz''" "stderr_data flood = ''e''"
    by (simp_all add: flood_def)
  from output_capped [where ?s0.0 = flooded and chunk = "''xyz''"] a
  have 1: "on_stdout ''xyz'' flooded = flooded"
    by (simp add: flooded_def MAX_OUTPUT_BYTES_def)
  from output_capped [where ?s0.0 = spawn_state and chunk = "replicate 65537 (CHR ''e'')"] b
  have 2: "stderr (on_stderr (replicate 65537 (CHR ''e'')) spawn_state) = replicate 65536 (CHR ''e'')"
    by (simp add: MAX_OUTPUT_BYTES_def)
  from output_capped [where ch = flood] d
  have 3: "stdout (running spawn_state flood) = replicate 65536 (CHR ''a'')"
    "outputTruncated (running spawn_state flood)" "killed (running spawn_state flood)"
    by (simp_all add: MAX_OUTPUT_BYTES_def)
  have e: "toString_utf8 (replicate 65535 (CHR ''a'') @ [CHR 0xE2]) = replicate 65535 97 @ [0xFFFD]"
    by (simp add: toString_utf8_def decode_ascii_run lead_def)
  from output_capped [where ch = cut_euro and cl = None and dir = True] cut_euro_run
  obtain res where "fst (limitedSpawn cut_euro None True) = Some res"
    and "stdout res = toString_utf8 (take MAX_OUTPUT_BYTES
           (replicate 65535 (CHR ''a'') @ [CHR 0xE2, CHR 0x82, CHR 0xAC]))"
    and "outputTruncated res =
           (MAX_OUTPUT_BYTES < length (replicate 65535 (CHR ''a'') @ [CHR 0xE2, CHR 0x82, CHR 0xAC]))"
    by auto
  with e have 4: "map_option stdout (fst (limitedSpawn cut_euro None True)) =
       Some (replicate 65535 97 @ [0xFFFD])"
    "map_option outputTruncated (fst (limitedSpawn cut_euro None True)) = Some True"
    by (simp_all add: MAX_OUTPUT_BYTES_def)
  from a b 1 2 3 4 cut_euro_run(1) show ?thesis by simp
qed




section \<open>The language adapters: toolchains, compile steps, workspaces\<close>

text \<open>
  Claim C7, at the input where the code parts from it. On a host with no toolchain,
  \<^verbatim>\<open>runJava\<close> and \<^verbatim>\<open>runCpp\<close> resolve with their hand-made results (\<open>exitCode\<close> null and a
  message naming the compiler). \<^verbatim>\<open>runPython\<close> resolves with what the second failed spawn
  left: the exit code \<^verbatim>\<open>'close'\<close> reported, an empty stderr, and a \<open>spawnError\<close> that the
  run-result event does not carry. (The second spawn fails in any case: the cleanup of
  the first has removed the directory it is to run in.)
\<close>

theorem python_missing_is_silent:
  "runPython bare_host ''print(1)'' =
     \<lparr>outcome = Resolved \<lparr>exitCode = Some (- 2), signal = None, stdout = [], stderr = [],
                            timedOut = False, outputTruncated = False,
                            spawnError = Some ''ENOENT''\<rparr>,
      tempDir = False, spawned = [Python, Py]\<rparr> \<and>
   fst (run_code solo solo ''s1'' 10 12 bare_host
          (Some \<lparr>rd_roomId = JStr ''R'', rd_code = JStr ''print(1)'',
                 rd_language = JStr ''python''\<rparr>)) =
     [(''s1'', RunResult \<lparr>rr_roomId = JStr ''R'', rr_language = JStr ''python'',
                          rr_startedAt = 10, rr_durationMs = 2, rr_exitCode = Some (- 2),
                          rr_stdout = [], rr_stderr = [], rr_timedOut = False,
                          rr_outputTruncated = False, rr_initiatedBy = ''ann''\<rparr>)] \<and>
   outcome (runJava bare_host ''class Main {}'') = Resolved javac_not_found \<and>
   outcome (runCpp bare_host ''int main() {}'') = Resolved cpp_not_found"
proof -
  have py: "runPython bare_host ''print(1)'' =
     \<lparr>outcome = Resolved \<lparr>exitCode = Some (- 2), signal = None, stdout = [], stderr = [],
                            timedOut = False, outputTruncated = False,
                            spawnError = Some ''ENOENT''\<rparr>,
      tempDir = False, spawned = [Python, Py]\<rparr>"
    by (simp add: runPython_def bare_host_def limitedSpawn_def enoent_run spawn_def
        spawn_failed_run payload_of_def toString_utf8_def not_spawned_def done_cleanup_def rm_def)
  have "io_to solo (JStr ''R'') = [''s1'']"
    by (simp add: solo_eval io_to_def rooms_of_def)
  with py have rc: "fst (run_code solo solo ''s1'' 10 12 bare_host
          (Some \<lparr>rd_roomId = JStr ''R'', rd_code = JStr ''print(1)'',
                 rd_language = JStr ''python''\<rparr>)) =
     [(''s1'', RunResult \<lparr>rr_roomId = JStr ''R'', rr_language = JStr ''python'',
                          rr_startedAt = 10, rr_durationMs = 2, rr_exitCode = Some (- 2),
                          rr_stdout = [], rr_stderr = [], rr_timedOut = False,
                          rr_outputTruncated = False, rr_initiatedBy = ''ann''\<rparr>)]"
    by (simp add: run_code_def adapter_def name_or_unknown_def solo_eval Let_def)
  have jv: "outcome (runJava bare_host ''class Main {}'') = Resolved javac_not_found"
    by (simp add: runJava_def bare_host_def limitedSpawn_def enoent_run spawn_def
        not_spawned_def done_cleanup_def rm_def)
  have cp: "outcome (runCpp bare_host ''int main() {}'') = Resolved cpp_not_found"
    by (simp add: runCpp_def runCpp_compiled_def bare_host_def limitedSpawn_def enoent_run
        spawn_def not_spawned_def done_cleanup_def rm_def)
  from py rc jv cp show ?thesis by simp
qed

theorem python_missing_is_silent_witness:
  "spawned (runPython bare_host ''print(1)'') = [Python, Py] \<and>
   map fst (fst (run_code solo solo ''s1'' 10 12 bare_host
          (Some \<lparr>rd_roomId = JStr ''R'', rd_code = JStr ''print(1)'',
                 rd_language = JStr ''python''\<rparr>))) = [''s1'']"
  using python_missing_is_silent by simp

text \<open>
  Claim C8, at the input where the code parts from it. g++ is not installed and clang++
  rejects the source; nothing is run after that. Where removing the temporary directory
  works, the room gets clang++'s exit code and diagnostics. Where it fails, \<^verbatim>\<open>runCpp\<close>
  rejects in its \<^verbatim>\<open>await rm\<close>: what is returned is not the compile step's result, and the
  requester alone gets the handler's generic error.
\<close>

theorem compile_result_needs_removal:
  "run_code solo solo ''s1'' 10 12 (sample_host False) (Some broken_cpp) =
     ([(''s1'', ErrorMsg ''Failed to run code'')],
      Some \<lparr>outcome = Rejected, tempDir = True, spawned = [Gpp, Clangpp]\<rparr>) \<and>
   run_code solo solo ''s1'' 10 12 (sample_host True) (Some broken_cpp) =
     ([(''s1'', RunResult \<lparr>rr_roomId = JStr ''R'', rr_language = JStr ''cpp'',
                           rr_startedAt = 10, rr_durationMs = 2, rr_exitCode = Some 1,
                           rr_stdout = [], rr_stderr = ascii ''error: expected ;'',
                           rr_timedOut = False, rr_outputTruncated = False,
                           rr_initiatedBy = ''ann''\<rparr>)],
      Some \<lparr>outcome = Resolved (payload_of build_error), tempDir = False,
            spawned = [Gpp, Clangpp]\<rparr>)"
proof -
  have cp: "runCpp (sample_host ok) ''int main() {'' =
     (if ok
      then \<lparr>outcome = Resolved (payload_of build_error), tempDir = False,
            spawned = [Gpp, Clangpp]\<rparr>
      else \<lparr>outcome = Rejected, tempDir = True, spawned = [Gpp, Clangpp]\<rparr>)" for ok
    by (simp add: runCpp_def runCpp_compiled_def sample_host_def limitedSpawn_def enoent_run
        build_error_run not_spawned_def build_error_def spawn_def done_cleanup_def rm_def)
  have io: "io_to solo (JStr ''R'') = [''s1'']"
    by (simp add: solo_eval io_to_def rooms_of_def)
  have diag: "toString_utf8 ''error: expected ;'' = ascii ''error: expected ;''"
    by (simp add: toString_utf8_def ascii_def lead_def)
  from cp io diag show ?thesis
    by (simp add: run_code_def broken_cpp_def adapter_def name_or_unknown_def solo_eval
        build_error_def Let_def)
qed

theorem compile_result_needs_removal_witness:
  "fst (run_code solo solo ''s1'' 10 12 (sample_host False) (Some broken_cpp)) =
     [(''s1'', ErrorMsg ''Failed to run code'')] \<and>
   map fst (fst (run_code solo solo ''s1'' 10 12 (sample_host True) (Some broken_cpp))) = [''s1'']"
  using compile_result_needs_removal by simp

text \<open>
  Claim C9, at the input where the code parts from it. The compiler rejects the source
  and removing the temporary directory fails. \<^verbatim>\<open>runJava\<close> and \<^verbatim>\<open>runCpp\<close> await \<^verbatim>\<open>rm\<close>
  outside any \<^verbatim>\<open>try\<close>: the promise rejects, the compiler's diagnostics are lost and the
  requester alone gets the handler's generic error. Where \<^verbatim>\<open>done\<close> runs the same removal
  as a cleanup, the failure is swallowed and the result is delivered.
\<close>

theorem failed_removal_replaces_result:
  "runJava (sample_host False) ''class Main {'' =
     \<lparr>outcome = Rejected, tempDir = True, spawned = [Javac]\<rparr> \<and>
   fst (run_code solo solo ''s1'' 10 12 (sample_host False)
          (Some \<lparr>rd_roomId = JStr ''R'', rd_code = JStr ''class Main {'',
                 rd_language = JStr ''java''\<rparr>)) =
     [(''s1'', ErrorMsg ''Failed to run code'')] \<and>
   runJava (sample_host True) ''class Main {'' =
     \<lparr>outcome = Resolved (payload_of build_error), tempDir = False, spawned = [Javac]\<rparr> \<and>
   runCpp (sample_host False) ''int main() {'' =
     \<lparr>outcome = Rejected, tempDir = True, spawned = [Gpp, Clangpp]\<rparr> \<and>
   runJavaScript (sample_host False) ''console.log(1)'' =
     \<lparr>outcome = Resolved \<lparr>exitCode = Some 0, signal = None, stdout = ascii ''hi'', stderr = [],
                            timedOut = False, outputTruncated = False, spawnError = None\<rparr>,
      tempDir = True, spawned = [Node]\<rparr>"
proof -
  have jv: "runJava (sample_host ok) ''class Main {'' =
     (if ok then \<lparr>outcome = Resolved (payload_of build_error), tempDir = False, spawned = [Javac]\<rparr>
      else \<lparr>outcome = Rejected, tempDir = True, spawned = [Javac]\<rparr>)" for ok
    by (simp add: runJava_def sample_host_def limitedSpawn_def build_error_run
        build_error_def spawn_def done_cleanup_def rm_def)
  then have rc: "fst (run_code solo solo ''s1'' 10 12 (sample_host False)
          (Some \<lparr>rd_roomId = JStr ''R'', rd_code = JStr ''class Main {'',
                 rd_language = JStr ''java''\<rparr>)) =
     [(''s1'', ErrorMsg ''Failed to run code'')]"
    by (simp add: run_code_def adapter_def solo_eval Let_def)
  have cp: "runCpp (sample_host False) ''int main() {'' =
     \<lparr>outcome = Rejected, tempDir = True, spawned = [Gpp, Clangpp]\<rparr>"
    by (simp add: runCpp_def runCpp_compiled_def sample_host_def limitedSpawn_def enoent_run
        build_error_run not_spawned_def build_error_def spawn_def done_cleanup_def rm_def)
  have js: "runJavaScript (sample_host False) ''console.log(1)'' =
     \<lparr>outcome = Resolved \<lparr>exitCode = Some 0, signal = None, stdout = ascii ''hi'', stderr = [],
                            timedOut = False, outputTruncated = False, spawnError = None\<rparr>,
      tempDir = True, spawned = [Node]\<rparr>"
    by (simp add: runJavaScript_def sample_host_def limitedSpawn_def hi_run spawn_def
        payload_of_def toString_utf8_def ascii_def lead_def done_cleanup_def rm_def)
  from jv rc cp js show ?thesis by simp
qed

theorem failed_removal_replaces_result_witness:
  "outcome (runJava (sample_host False) ''class Main {'') = Rejected \<and>
   outcome (runJava (sample_host True) ''class Main {'') = Resolved (payload_of build_error)"
  using failed_removal_replaces_result by simp

end
